theory Spec2Isabelle
  imports Main "HOL-Library.AList"
begin

section \<open>Values shared by the modules\<close>

text \<open>
  JSON values as the handlers see them after \<^verbatim>\<open>req.json()\<close> and as they put them into
  response details. An object is an association list in insertion order. Strings are
  lists of code units; a \<^typ>\<open>char\<close> is one unit.
\<close>

datatype json =
    JNull
  | JBool bool
  | JNum int
  | JStr string
  | JArr "json list"
  | JObj "(string \<times> json) list"

text \<open>JavaScript truthiness of a string (\<^verbatim>\<open>!s\<close> is true for the empty string).\<close>

definition truthy_string :: "string \<Rightarrow> bool" where
  "truthy_string s = (s \<noteq> [])"

text \<open>\<^verbatim>\<open>String.prototype.startsWith\<close>.\<close>

definition startsWith :: "string \<Rightarrow> string \<Rightarrow> bool" where
  "startsWith s p = (take (length p) s = p)"

text \<open>\<^verbatim>\<open>String.prototype.substring(n)\<close> with one argument.\<close>

definition substring :: "string \<Rightarrow> nat \<Rightarrow> string" where
  "substring s n = drop n s"

section \<open>constants.ts\<close>

definition ERROR_MESSAGES_INVALID_CREDENTIALS :: string where
  "ERROR_MESSAGES_INVALID_CREDENTIALS = ''Invalid email or password''"

definition ERROR_MESSAGES_USER_ALREADY_EXISTS :: string where
  "ERROR_MESSAGES_USER_ALREADY_EXISTS = ''User with this email already exists''"

definition ERROR_MESSAGES_INTERNAL_SERVER_ERROR :: string where
  "ERROR_MESSAGES_INTERNAL_SERVER_ERROR = ''An error occurred while processing your request''"

definition ERROR_MESSAGES_UNAUTHORIZED :: string where
  "ERROR_MESSAGES_UNAUTHORIZED = ''Unauthorized: Please provide a valid authentication token''"

definition ERROR_MESSAGES_INVALID_INPUT :: string where
  "ERROR_MESSAGES_INVALID_INPUT = ''Invalid input data''"

definition SUCCESS_MESSAGES_USER_CREATED :: string where
  "SUCCESS_MESSAGES_USER_CREATED = ''User created successfully''"

definition SUCCESS_MESSAGES_LOGIN_SUCCESSFUL :: string where
  "SUCCESS_MESSAGES_LOGIN_SUCCESSFUL = ''Login successful''"

definition SUCCESS_MESSAGES_OPERATION_SUCCESS :: string where
  "SUCCESS_MESSAGES_OPERATION_SUCCESS = ''Operation completed successfully''"

definition AUTH_CONFIG_BCRYPT_ROUNDS :: nat where
  "AUTH_CONFIG_BCRYPT_ROUNDS = 10"

definition HTTP_STATUS_OK :: nat where
  "HTTP_STATUS_OK = 200"

definition HTTP_STATUS_BAD_REQUEST :: nat where
  "HTTP_STATUS_BAD_REQUEST = 400"

definition HTTP_STATUS_UNAUTHORIZED :: nat where
  "HTTP_STATUS_UNAUTHORIZED = 401"

definition HTTP_STATUS_CONFLICT :: nat where
  "HTTP_STATUS_CONFLICT = 409"

definition HTTP_STATUS_INTERNAL_SERVER_ERROR :: nat where
  "HTTP_STATUS_INTERNAL_SERVER_ERROR = 500"

section \<open>apiResponse.ts: the response envelope\<close>

text \<open>
  The two wire shapes \<^verbatim>\<open>ApiSuccess<T>\<close> and \<^verbatim>\<open>ApiError\<close>. The member
  \<^verbatim>\<open>success\<close> is the discriminator. \<^verbatim>\<open>timestamp\<close> holds the instant of
  \<^verbatim>\<open>new Date()\<close> in milliseconds, of which the ISO-8601 text is a rendering.
  An optional member that is left out of the object is \<open>None\<close>.
\<close>

datatype 'a api_response =
    success: ApiSuccess (data: 'a) (message: string) (timestamp: nat)
  | ApiError (error: string) (code: string) (status: nat) (details: "json option")
      (timestamp: nat)

text \<open>\<^verbatim>\<open>NextResponse.json(body, { status })\<close>.\<close>

record 'a next_response =
  res_body :: "'a api_response"
  res_status :: nat

text \<open>
  The functions read \<^verbatim>\<open>process.env.NODE_ENV\<close> (a string, or undefined) and the clock;
  both are parameters here.
\<close>

definition successResponse :: "nat \<Rightarrow> 'a \<Rightarrow> string option \<Rightarrow> nat \<Rightarrow> 'a next_response" where
  "successResponse now d msg st =
     \<lparr> res_body = ApiSuccess d
         (case msg of None \<Rightarrow> SUCCESS_MESSAGES_OPERATION_SUCCESS
          | Some m \<Rightarrow> if truthy_string m then m else SUCCESS_MESSAGES_OPERATION_SUCCESS)
         now,
       res_status = st \<rparr>"

definition errorResponse ::
  "string option \<Rightarrow> nat \<Rightarrow> string \<Rightarrow> string \<Rightarrow> nat \<Rightarrow> json option \<Rightarrow> 'a next_response" where
  "errorResponse node_env now msg cd st dt =
     \<lparr> res_body = ApiError msg cd st
         (if node_env = Some ''development'' then dt else None) now,
       res_status = st \<rparr>"

text \<open>\<^verbatim>\<open>errors: Record<string, string>\<close> is an association list in insertion order.\<close>

definition validationErrorResponse ::
  "string option \<Rightarrow> nat \<Rightarrow> (string \<times> string) list \<Rightarrow> 'a next_response" where
  "validationErrorResponse node_env now errors =
     errorResponse node_env now ERROR_MESSAGES_INVALID_INPUT ''VALIDATION_ERROR''
       HTTP_STATUS_BAD_REQUEST
       (Some (JObj [(''validationErrors'', JObj (map (\<lambda>(k, v). (k, JStr v)) errors))]))"

definition unauthorizedResponse :: "string option \<Rightarrow> nat \<Rightarrow> string \<Rightarrow> 'a next_response" where
  "unauthorizedResponse node_env now msg =
     errorResponse node_env now msg ''UNAUTHORIZED'' HTTP_STATUS_UNAUTHORIZED None"

definition conflictResponse :: "string option \<Rightarrow> nat \<Rightarrow> string \<Rightarrow> 'a next_response" where
  "conflictResponse node_env now msg =
     errorResponse node_env now msg ''CONFLICT'' HTTP_STATUS_CONFLICT None"

text \<open>
  Anything a handler can throw. All of them are instances of \<^verbatim>\<open>Error\<close>, so
  \<^verbatim>\<open>error.message\<close> is read off them.
\<close>

datatype exn =
    Error string
  | SyntaxError string
  | PrismaClientKnownRequestError string string
  | JsonWebTokenError string
  | TokenExpiredError string

fun exn_message :: "exn \<Rightarrow> string" where
  "exn_message (Error m) = m"
| "exn_message (SyntaxError m) = m"
| "exn_message (PrismaClientKnownRequestError c m) = m"
| "exn_message (JsonWebTokenError m) = m"
| "exn_message (TokenExpiredError m) = m"

text \<open>\<^verbatim>\<open>handleError\<close>; the line it writes to the server console is not modelled.\<close>

definition handleError :: "string option \<Rightarrow> nat \<Rightarrow> exn \<Rightarrow> string option \<Rightarrow> 'a next_response" where
  "handleError node_env now e context =
     errorResponse node_env now ERROR_MESSAGES_INTERNAL_SERVER_ERROR ''INTERNAL_ERROR''
       HTTP_STATUS_INTERNAL_SERVER_ERROR
       (if node_env = Some ''development''
        then Some (JObj [(''originalError'', JStr (exn_message e))]) else None)"

section \<open>middleware.ts: the route gate\<close>

text \<open>
  What the modules read of a \<^verbatim>\<open>NextRequest\<close>: the path of \<^verbatim>\<open>nextUrl\<close>, the cookie
  jar, the header the bearer token travels in (\<^verbatim>\<open>headers.get('authorization')\<close>, null
  when the header is missing) and the parsed body (\<open>None\<close> when \<^verbatim>\<open>req.json()\<close>
  rejects).
\<close>

record next_request =
  pathname :: string
  cookies :: "string \<rightharpoonup> string"
  authorization :: "string option"
  json_body :: "json option"




definition protectedRoutes :: "string list" where
  "protectedRoutes = [''/create'', ''/profile'', ''/messages'', ''/dashboard'']"

text \<open>
  \<^verbatim>\<open>NextResponse.redirect(new URL(p, request.url))\<close> keeps the origin of the request and
  goes to the path \<open>p\<close>; \<^verbatim>\<open>NextResponse.next()\<close> lets the navigation through.
\<close>

datatype gate_response = Redirect string | Next

definition isProtectedRoute :: "string \<Rightarrow> bool" where
  "isProtectedRoute p = list_ex (\<lambda>route. startsWith p route) protectedRoutes"

definition middleware :: "next_request \<Rightarrow> gate_response" where
  "middleware request =
     (if isProtectedRoute (pathname request) then
        (case cookies request ''authToken'' of
           None \<Rightarrow> Redirect ''/login''
         | Some authToken \<Rightarrow> if \<not> truthy_string authToken then Redirect ''/login'' else Next)
      else Next)"

section \<open>env.ts\<close>

text \<open>
  \<^verbatim>\<open>env.JWT_SECRET\<close> is \<^verbatim>\<open>process.env.JWT_SECRET || ''\<close>: the empty string when the
  variable is unset.
\<close>

definition getJwtSecret :: "string \<Rightarrow> exn + string" where
  "getJwtSecret JWT_SECRET =
     (if \<not> truthy_string JWT_SECRET
      then Inl (Error ''JWT_SECRET environment variable is not set. This is required for authentication.'')
      else Inr JWT_SECRET)"

section \<open>The jsonwebtoken library, as auth.ts uses it\<close>

text \<open>
  The library is not part of the repository; this is the behaviour of \<^verbatim>\<open>jwt.sign\<close> and
  \<^verbatim>\<open>jwt.verify\<close> (version 9, HS256, no options but \<^verbatim>\<open>expiresIn\<close>) that auth.ts
  relies on. A token is three segments joined by dots: header, payload, signature. The
  keyed hash is a parameter \<open>hmac key text\<close>. Where the library writes base64url of a
  JSON text, the model writes each string as two hexadecimal digits per unit and each
  number in decimal, fields joined by commas: like base64url, an encoding that can be
  read back and whose alphabet has neither dot nor comma.
\<close>

record JwtPayload =
  jwt_id :: string
  jwt_email :: string
  iat :: "nat option"
  exp :: "nat option"

primrec index_of :: "'a \<Rightarrow> 'a list \<Rightarrow> nat option" where
  "index_of x [] = None"
| "index_of x (y # ys) = (if x = y then Some 0 else map_option Suc (index_of x ys))"

definition hex_digits :: string where
  "hex_digits = ''0123456789abcdef''"

definition dec_digits :: string where
  "dec_digits = ''0123456789''"

definition encode_unit :: "char \<Rightarrow> string" where
  "encode_unit c = [hex_digits ! (of_char c div 16), hex_digits ! (of_char c mod 16)]"

definition encode_text :: "string \<Rightarrow> string" where
  "encode_text s = concat (map encode_unit s)"

fun decode_text :: "string \<Rightarrow> string option" where
  "decode_text [] = Some []"
| "decode_text [a] = None"
| "decode_text (a # b # r) =
     (case (index_of a hex_digits, index_of b hex_digits, decode_text r) of
        (Some x, Some y, Some s) \<Rightarrow> Some (char_of (16 * x + y) # s)
      | _ \<Rightarrow> None)"

fun encode_nat :: "nat \<Rightarrow> string" where
  "encode_nat n =
     (if n < 10 then [dec_digits ! n] else encode_nat (n div 10) @ [dec_digits ! (n mod 10)])"

declare encode_nat.simps [simp del]

definition decode_nat :: "string \<Rightarrow> nat option" where
  "decode_nat s =
     (if s \<noteq> [] \<and> list_all (\<lambda>c. c \<in> set dec_digits) s
      then Some (foldl (\<lambda>acc c. 10 * acc + (case index_of c dec_digits of None \<Rightarrow> 0 | Some d \<Rightarrow> d))
                   0 s)
      else None)"

text \<open>An optional numeric member (\<^verbatim>\<open>iat?\<close>, \<^verbatim>\<open>exp?\<close>): empty when it is left out.\<close>

definition encode_opt_nat :: "nat option \<Rightarrow> string" where
  "encode_opt_nat v = (case v of None \<Rightarrow> [] | Some n \<Rightarrow> encode_nat n)"

definition decode_opt_nat :: "string \<Rightarrow> nat option option" where
  "decode_opt_nat s = (if s = [] then Some None else map_option Some (decode_nat s))"

primrec split_on :: "char \<Rightarrow> string \<Rightarrow> string list" where
  "split_on c [] = [[]]"
| "split_on c (x # xs) =
     (if x = c then [] # split_on c xs
      else (case split_on c xs of [] \<Rightarrow> [[x]] | y # ys \<Rightarrow> (x # y) # ys))"

definition jwt_header :: string where
  "jwt_header = encode_text ''HS256''"

definition encode_payload :: "JwtPayload \<Rightarrow> string" where
  "encode_payload p =
     encode_text (jwt_id p) @ '','' @ encode_text (jwt_email p) @ '','' @
     encode_opt_nat (iat p) @ '','' @ encode_opt_nat (exp p)"

definition decode_payload :: "string \<Rightarrow> JwtPayload option" where
  "decode_payload s =
     (case split_on CHR '','' s of
        [a, b, c, d] \<Rightarrow>
          (case (decode_text a, decode_text b, decode_opt_nat c, decode_opt_nat d) of
             (Some i, Some e, Some t0, Some t1) \<Rightarrow>
               Some \<lparr> jwt_id = i, jwt_email = e, iat = t0, exp = t1 \<rparr>
           | _ \<Rightarrow> None)
      | _ \<Rightarrow> None)"

text \<open>
  The \<^verbatim>\<open>ms\<close> package (version 2) on a string: the span in milliseconds, or undefined.
  Its pattern is a number, spaces, and an optional unit in any of its spellings and in
  either case; a string of more than 100 units is refused. The model follows it for a
  number written as a row of digits (\<^verbatim>\<open>'7d'\<close>, \<^verbatim>\<open>'20 Hours'\<close>, \<^verbatim>\<open>'60'\<close>); a number
  with a sign or a fraction, which the package also reads, is undefined here.
\<close>

definition ms_units :: "(string \<times> nat) list" where
  "ms_units =
     [([], 1),
      (''milliseconds'', 1), (''millisecond'', 1), (''msecs'', 1), (''msec'', 1), (''ms'', 1),
      (''seconds'', 1000), (''second'', 1000), (''secs'', 1000), (''sec'', 1000), (''s'', 1000),
      (''minutes'', 60000), (''minute'', 60000), (''mins'', 60000), (''min'', 60000),
      (''m'', 60000),
      (''hours'', 3600000), (''hour'', 3600000), (''hrs'', 3600000), (''hr'', 3600000),
      (''h'', 3600000),
      (''days'', 86400000), (''day'', 86400000), (''d'', 86400000),
      (''weeks'', 604800000), (''week'', 604800000), (''w'', 604800000),
      (''years'', 31557600000), (''year'', 31557600000), (''yrs'', 31557600000),
      (''yr'', 31557600000), (''y'', 31557600000)]"

definition ascii_lower :: "string \<Rightarrow> string" where
  "ascii_lower s =
     map (\<lambda>c. case index_of c ''ABCDEFGHIJKLMNOPQRSTUVWXYZ'' of
                None \<Rightarrow> c | Some i \<Rightarrow> ''abcdefghijklmnopqrstuvwxyz'' ! i) s"

definition ms :: "string \<Rightarrow> nat option" where
  "ms s =
     (if length s > 100 then None
      else
        (let ds = takeWhile (\<lambda>c. c \<in> set dec_digits) s;
             u = dropWhile (\<lambda>c. c = CHR '' '') (dropWhile (\<lambda>c. c \<in> set dec_digits) s)
         in case (decode_nat ds, map_of ms_units (ascii_lower u)) of
              (Some n, Some k) \<Rightarrow> Some (n * k)
            | _ \<Rightarrow> None))"

text \<open>
  \<^verbatim>\<open>jwt.sign(payload, secret, { expiresIn })\<close> at the instant \<open>now\<close> (milliseconds):
  \<^verbatim>\<open>iat\<close> is the clock in whole seconds, \<^verbatim>\<open>exp\<close> is \<^verbatim>\<open>iat\<close> plus the span.
\<close>

definition jwt_sign ::
  "(string \<Rightarrow> string \<Rightarrow> string) \<Rightarrow> nat \<Rightarrow> string \<Rightarrow> string \<Rightarrow> string \<Rightarrow> string \<Rightarrow> exn + string" where
  "jwt_sign hmac now userId email secret expiresIn =
     (case ms expiresIn of
        None \<Rightarrow> Inl (Error ''expiresIn should be a number of seconds or string representing a timespan'')
      | Some span \<Rightarrow>
          (let t = now div 1000;
               body = jwt_header @ ''.'' @
                 encode_payload \<lparr> jwt_id = userId, jwt_email = email, iat = Some t,
                                  exp = Some (t + span div 1000) \<rparr>
           in Inr (body @ ''.'' @ encode_text (hmac secret body))))"

text \<open>
  \<^verbatim>\<open>jwt.verify(token, secret)\<close> at the instant \<open>now\<close>, in the library's order: the
  shape of the token, then the signature, then the expiry
  (\<^verbatim>\<open>clockTimestamp >= payload.exp\<close>).
\<close>

definition jwt_verify ::
  "(string \<Rightarrow> string \<Rightarrow> string) \<Rightarrow> nat \<Rightarrow> string \<Rightarrow> string \<Rightarrow> exn + JwtPayload" where
  "jwt_verify hmac now token secret =
     (if token = [] then Inl (JsonWebTokenError ''jwt must be provided'')
      else case split_on CHR ''.'' token of
        [h, p, sg] \<Rightarrow>
          (case (h = jwt_header, decode_payload p) of
             (True, Some payload) \<Rightarrow>
               if sg \<noteq> encode_text (hmac secret (h @ ''.'' @ p))
               then Inl (JsonWebTokenError ''invalid signature'')
               else (case exp payload of
                       Some e \<Rightarrow>
                         if now div 1000 \<ge> e then Inl (TokenExpiredError ''jwt expired'')
                         else Inr payload
                     | None \<Rightarrow> Inr payload)
           | _ \<Rightarrow> Inl (JsonWebTokenError ''invalid token''))
      | _ \<Rightarrow> Inl (JsonWebTokenError ''jwt malformed''))"

section \<open>auth.ts\<close>

record AuthResult =
  auth_success :: bool
  auth_user :: "JwtPayload option"
  auth_error :: "string option"

definition extractToken :: "next_request \<Rightarrow> string option" where
  "extractToken req =
     (case authorization req of
        None \<Rightarrow> None
      | Some authHeader \<Rightarrow>
          if \<not> startsWith authHeader ''Bearer '' then None
          else Some (substring authHeader 7))"

text \<open>\<^verbatim>\<open>error instanceof jwt.JsonWebTokenError\<close>; the expiry error is a subclass.\<close>

fun instanceof_JsonWebTokenError :: "exn \<Rightarrow> bool" where
  "instanceof_JsonWebTokenError (JsonWebTokenError m) = True"
| "instanceof_JsonWebTokenError (TokenExpiredError m) = True"
| "instanceof_JsonWebTokenError e = False"

fun exn_name :: "exn \<Rightarrow> string" where
  "exn_name (Error m) = ''Error''"
| "exn_name (SyntaxError m) = ''SyntaxError''"
| "exn_name (PrismaClientKnownRequestError c m) = ''PrismaClientKnownRequestError''"
| "exn_name (JsonWebTokenError m) = ''JsonWebTokenError''"
| "exn_name (TokenExpiredError m) = ''TokenExpiredError''"

definition verifyToken ::
  "(string \<Rightarrow> string \<Rightarrow> string) \<Rightarrow> string \<Rightarrow> nat \<Rightarrow> string \<Rightarrow> AuthResult" where
  "verifyToken hmac JWT_SECRET now token =
     (case (case getJwtSecret JWT_SECRET of
              Inl e \<Rightarrow> Inl e
            | Inr secret \<Rightarrow> jwt_verify hmac now token secret) of
        Inr decoded \<Rightarrow>
          \<lparr> auth_success = True, auth_user = Some decoded, auth_error = None \<rparr>
      | Inl e \<Rightarrow>
          \<lparr> auth_success = False, auth_user = None,
            auth_error = Some
              (if instanceof_JsonWebTokenError e
               then (if exn_name e = ''TokenExpiredError'' then ''Token has expired''
                     else ''Invalid token'')
               else ''Token verification failed'') \<rparr>)"


definition generateToken ::
  "(string \<Rightarrow> string \<Rightarrow> string) \<Rightarrow> string \<Rightarrow> nat \<Rightarrow> string \<Rightarrow> string \<Rightarrow> string \<Rightarrow> exn + string" where
  "generateToken hmac JWT_SECRET now userId email expiresIn =
     (case getJwtSecret JWT_SECRET of
        Inl e \<Rightarrow> Inl e
      | Inr secret \<Rightarrow> jwt_sign hmac now userId email secret expiresIn)"

text \<open>The default of the third parameter, \<^verbatim>\<open>expiresIn: string = '7d'\<close>.\<close>

definition generateToken_default_expiresIn :: string where
  "generateToken_default_expiresIn = ''7d''"

section \<open>The zod library, as validators.ts uses it\<close>

text \<open>
  The library (version 4) is not part of the repository; this is how it runs the string
  schemas that validators.ts builds. A string schema is the list of its checks in the
  order of the method chain. Each check sees the value as the checks before it left it:
  \<^verbatim>\<open>min\<close>, \<^verbatim>\<open>max\<close>, \<^verbatim>\<open>regex\<close> and \<^verbatim>\<open>email\<close> test the value and add an issue with
  their message when the test fails, without stopping the chain; \<^verbatim>\<open>toLowerCase\<close> and
  \<^verbatim>\<open>trim\<close> replace the value. A regular expression is the predicate it decides.
\<close>

datatype check =
    Min nat string
  | Max nat string
  | Regex "string \<Rightarrow> bool" string
  | Email string
  | ToLowerCase
  | Trim

definition upper_letters :: string where
  "upper_letters = ''ABCDEFGHIJKLMNOPQRSTUVWXYZ''"

definition lower_letters :: string where
  "lower_letters = ''abcdefghijklmnopqrstuvwxyz''"

definition is_letter :: "char \<Rightarrow> bool" where
  "is_letter c = (c \<in> set upper_letters \<or> c \<in> set lower_letters)"

definition is_alnum :: "char \<Rightarrow> bool" where
  "is_alnum c = (is_letter c \<or> c \<in> set dec_digits)"

text \<open>
  White space as \<^verbatim>\<open>\s\<close> and \<^verbatim>\<open>trim\<close> know it, among the units a \<^typ>\<open>char\<close> can hold
  (U+0000 to U+00FF): tab, line feed, vertical tab, form feed, carriage return, space and
  the no-break space U+00A0.
\<close>

definition is_space :: "char \<Rightarrow> bool" where
  "is_space c =
     (c \<in> set [CHR 0x09, CHR 0x0A, CHR 0x0B, CHR 0x0C, CHR 0x0D, CHR '' '', CHR 0xA0])"

text \<open>
  \<^verbatim>\<open>String.prototype.toLowerCase\<close> on those units: the letters A to Z, and the capital
  letters U+00C0 to U+00DE but for the multiplication sign U+00D7, whose small letters
  stand 32 places further on.
\<close>

definition upper_units :: string where
  "upper_units = upper_letters @
     [CHR 0xC0, CHR 0xC1, CHR 0xC2, CHR 0xC3, CHR 0xC4, CHR 0xC5, CHR 0xC6, CHR 0xC7,
      CHR 0xC8, CHR 0xC9, CHR 0xCA, CHR 0xCB, CHR 0xCC, CHR 0xCD, CHR 0xCE, CHR 0xCF,
      CHR 0xD0, CHR 0xD1, CHR 0xD2, CHR 0xD3, CHR 0xD4, CHR 0xD5, CHR 0xD6, CHR 0xD8,
      CHR 0xD9, CHR 0xDA, CHR 0xDB, CHR 0xDC, CHR 0xDD, CHR 0xDE]"

definition lower_units :: string where
  "lower_units = lower_letters @
     [CHR 0xE0, CHR 0xE1, CHR 0xE2, CHR 0xE3, CHR 0xE4, CHR 0xE5, CHR 0xE6, CHR 0xE7,
      CHR 0xE8, CHR 0xE9, CHR 0xEA, CHR 0xEB, CHR 0xEC, CHR 0xED, CHR 0xEE, CHR 0xEF,
      CHR 0xF0, CHR 0xF1, CHR 0xF2, CHR 0xF3, CHR 0xF4, CHR 0xF5, CHR 0xF6, CHR 0xF8,
      CHR 0xF9, CHR 0xFA, CHR 0xFB, CHR 0xFC, CHR 0xFD, CHR 0xFE]"

definition lower_unit :: "char \<Rightarrow> char" where
  "lower_unit c = (case index_of c upper_units of None \<Rightarrow> c | Some i \<Rightarrow> lower_units ! i)"

definition toLowerCase :: "string \<Rightarrow> string" where
  "toLowerCase s = map lower_unit s"

text \<open>\<^verbatim>\<open>String.prototype.trim\<close>.\<close>

definition trim :: "string \<Rightarrow> string" where
  "trim s = rev (dropWhile is_space (rev (dropWhile is_space s)))"

text \<open>
  The pattern behind \<^verbatim>\<open>email()\<close>:
  \<^verbatim>\<open>/^(?!\.)(?!.*\.\.)([A-Za-z0-9_'+\-\.]*)[A-Za-z0-9_+-]@([A-Za-z0-9][A-Za-z0-9\-]*\.)+[A-Za-z]{2,}$/\<close>.
  No class of it holds the at sign, so the local part ends at the first one; no class of
  the domain holds the dot, so the dots cut the domain into its labels.
\<close>

fun has_double_dot :: "string \<Rightarrow> bool" where
  "has_double_dot (a # b # r) = ((a = CHR ''.'' \<and> b = CHR ''.'') \<or> has_double_dot (b # r))"
| "has_double_dot s = False"

definition local_char :: "char \<Rightarrow> bool" where
  "local_char c = (is_alnum c \<or> c \<in> set [CHR ''_'', CHR 0x27, CHR ''+'', CHR ''-'', CHR ''.''])"

definition local_last_char :: "char \<Rightarrow> bool" where
  "local_last_char c = (is_alnum c \<or> c \<in> set [CHR ''_'', CHR ''+'', CHR ''-''])"

definition domain_label :: "string \<Rightarrow> bool" where
  "domain_label l =
     (case l of [] \<Rightarrow> False
      | c # cs \<Rightarrow> is_alnum c \<and> list_all (\<lambda>d. is_alnum d \<or> d = CHR ''-'') cs)"

definition top_level_domain :: "string \<Rightarrow> bool" where
  "top_level_domain t = (2 \<le> length t \<and> list_all is_letter t)"

definition email_regex :: "string \<Rightarrow> bool" where
  "email_regex s =
     (let local = takeWhile (\<lambda>c. c \<noteq> CHR ''@'') s;
          rest = dropWhile (\<lambda>c. c \<noteq> CHR ''@'') s
      in case rest of
           [] \<Rightarrow> False
         | at # domain \<Rightarrow>
             \<not> startsWith s ''.'' \<and> \<not> has_double_dot s \<and>
             local \<noteq> [] \<and> list_all local_char local \<and> local_last_char (last local) \<and>
             (let parts = split_on CHR ''.'' domain
              in 2 \<le> length parts \<and> list_all domain_label (butlast parts) \<and>
                 top_level_domain (last parts)))"

text \<open>One check on the current value: the messages it adds and the value it leaves.\<close>

fun run_check :: "check \<Rightarrow> string \<Rightarrow> string list \<times> string" where
  "run_check (Min n m) v = (if length v < n then [m] else [], v)"
| "run_check (Max n m) v = (if length v > n then [m] else [], v)"
| "run_check (Regex r m) v = (if \<not> r v then [m] else [], v)"
| "run_check (Email m) v = (if \<not> email_regex v then [m] else [], v)"
| "run_check ToLowerCase v = ([], toLowerCase v)"
| "run_check Trim v = ([], trim v)"

primrec run_checks :: "check list \<Rightarrow> string \<Rightarrow> string list \<times> string" where
  "run_checks [] v = ([], v)"
| "run_checks (c # cs) v =
     (case run_check c v of (m, v') \<Rightarrow>
        (case run_checks cs v' of (msgs, v'') \<Rightarrow> (m @ msgs, v'')))"

text \<open>
  An issue is the path of the value it is about and a message. A value of the wrong type
  (or a missing one, \<open>None\<close>) gives one issue and the checks do not run.
\<close>

record issue =
  path :: "string list"
  issue_message :: string

definition json_type :: "json option \<Rightarrow> string" where
  "json_type v =
     (case v of None \<Rightarrow> ''undefined'' | Some JNull \<Rightarrow> ''null'' | Some (JBool b) \<Rightarrow> ''boolean''
      | Some (JNum n) \<Rightarrow> ''number'' | Some (JStr s) \<Rightarrow> ''string'' | Some (JArr a) \<Rightarrow> ''array''
      | Some (JObj kvs) \<Rightarrow> ''object'')"

definition invalid_type :: "string \<Rightarrow> json option \<Rightarrow> string" where
  "invalid_type expected v = ''Invalid input: expected '' @ expected @ '', received '' @ json_type v"

text \<open>
  After the issue for the wrong type the chain is aborted, and an aborted chain still
  runs \<^verbatim>\<open>min\<close> and \<^verbatim>\<open>max\<close>, on every value that is not null and has a member
  \<^verbatim>\<open>length\<close>: they compare that member with their bound
  (\<^verbatim>\<open>length >= minimum\<close>, \<^verbatim>\<open>length <= maximum\<close>) and add their message when the
  comparison is false. An array has the number of its elements there; an object has one
  when it has a member of that name, which JavaScript converts to a number for the
  comparison. Null, false and true convert to 0, 0 and 1. The conversion of a string, an
  array or an object is not followed here: the model takes it for not-a-number, with
  which every comparison is false.
\<close>

datatype number = Number int | NaN

definition to_number :: "json \<Rightarrow> number" where
  "to_number v =
     (case v of JNull \<Rightarrow> Number 0 | JBool b \<Rightarrow> Number (if b then 1 else 0) | JNum n \<Rightarrow> Number n
      | JStr s \<Rightarrow> NaN | JArr a \<Rightarrow> NaN | JObj kvs \<Rightarrow> NaN)"

definition length_of :: "json option \<Rightarrow> number option" where
  "length_of v =
     (case v of
        Some (JArr a) \<Rightarrow> Some (Number (int (length a)))
      | Some (JObj kvs) \<Rightarrow> map_option to_number (map_of kvs ''length'')
      | _ \<Rightarrow> None)"

fun length_check :: "number \<Rightarrow> check \<Rightarrow> string list" where
  "length_check (Number x) (Min n m) = (if x \<ge> int n then [] else [m])"
| "length_check NaN (Min n m) = [m]"
| "length_check (Number x) (Max n m) = (if x \<le> int n then [] else [m])"
| "length_check NaN (Max n m) = [m]"
| "length_check l c = []"

text \<open>\<^verbatim>\<open>z.string()\<close> with its checks, on one member of the payload.\<close>

definition parse_string :: "check list \<Rightarrow> json option \<Rightarrow> string list + string" where
  "parse_string checks v =
     (case v of
        Some (JStr s) \<Rightarrow> (case run_checks checks s of (msgs, s') \<Rightarrow> if msgs = [] then Inr s' else Inl msgs)
      | _ \<Rightarrow>
          Inl (invalid_type ''string'' v #
               (case length_of v of
                  None \<Rightarrow> []
                | Some l \<Rightarrow> concat (map (length_check l) checks))))"

text \<open>
  \<^verbatim>\<open>z.object(shape).safeParse(data)\<close> for a shape of string members: the members are
  parsed in the order of the shape and their issues are collected in that order; keys
  outside the shape are dropped. The result is the issues, or the typed data.
\<close>

definition safeParse ::
  "(string \<times> check list) list \<Rightarrow> json \<Rightarrow> issue list + (string \<times> string) list" where
  "safeParse shape d =
     (case d of
        JObj kvs \<Rightarrow>
          (let rs = map (\<lambda>(k, checks). (k, parse_string checks (map_of kvs k))) shape;
               issues = concat (map (\<lambda>(k, r). case r of
                   Inl msgs \<Rightarrow> map (\<lambda>m. \<lparr> path = [k], issue_message = m \<rparr>) msgs
                 | Inr v \<Rightarrow> []) rs)
           in if issues = []
              then Inr (concat (map (\<lambda>(k, r). case r of Inl msgs \<Rightarrow> [] | Inr v \<Rightarrow> [(k, v)]) rs))
              else Inl issues)
      | _ \<Rightarrow> Inl [\<lparr> path = [], issue_message = invalid_type ''object'' (Some d) \<rparr>])"

section \<open>validators.ts\<close>

definition emailSchema :: "check list" where
  "emailSchema = [Email ''Invalid email format'', ToLowerCase, Trim]"

definition passwordSchema :: "check list" where
  "passwordSchema =
     [Min 8 ''Password must be at least 8 characters long'',
      Regex (\<lambda>s. list_ex (\<lambda>c. c \<in> set upper_letters) s)
        ''Password must contain at least one uppercase letter'',
      Regex (\<lambda>s. list_ex (\<lambda>c. c \<in> set lower_letters) s)
        ''Password must contain at least one lowercase letter'',
      Regex (\<lambda>s. list_ex (\<lambda>c. c \<in> set dec_digits) s)
        ''Password must contain at least one number'',
      Regex (\<lambda>s. list_ex (\<lambda>c. c \<in> set ''@$!%*?&'') s)
        ''Password must contain at least one special character (@$!%*?&)'']"

definition nameSchema :: "check list" where
  "nameSchema =
     [Min 2 ''Name must be at least 2 characters long'',
      Max 100 ''Name must be at most 100 characters long'',
      Regex (\<lambda>s. s \<noteq> [] \<and>
                 list_all (\<lambda>c. is_letter c \<or> is_space c \<or> c = CHR ''-'' \<or> c = CHR 0x27) s)
        ''Name can only contain letters, spaces, hyphens, and apostrophes'']"

definition signupSchema :: "(string \<times> check list) list" where
  "signupSchema = [(''name'', nameSchema), (''email'', emailSchema), (''password'', passwordSchema)]"

definition loginSchema :: "(string \<times> check list) list" where
  "loginSchema = [(''email'', emailSchema), (''password'', [Min 1 ''Password is required''])]"

text \<open>\<^verbatim>\<open>Array.prototype.join\<close>.\<close>

fun join :: "string \<Rightarrow> string list \<Rightarrow> string" where
  "join sep [] = []"
| "join sep [x] = x"
| "join sep (x # y # ys) = x @ sep @ join sep (y # ys)"

text \<open>
  The result of \<^verbatim>\<open>validateInput\<close>: \<^verbatim>\<open>{ success, data?, errors? }\<close>. The loop over the
  issues assigns \<^verbatim>\<open>errors[path] = issue.message\<close>: a later issue of a path replaces the
  message an earlier one left there.
\<close>

record validation =
  v_success :: bool
  v_data :: "(string \<times> string) list option"
  v_errors :: "(string \<times> string) list option"

definition collect_errors :: "issue list \<Rightarrow> (string \<times> string) list" where
  "collect_errors issues =
     foldl (\<lambda>errors i. AList.update (join ''.'' (path i)) (issue_message i) errors) [] issues"

definition validateInput :: "(string \<times> check list) list \<Rightarrow> json \<Rightarrow> validation" where
  "validateInput schema d =
     (case safeParse schema d of
        Inl issues \<Rightarrow>
          \<lparr> v_success = False, v_data = None, v_errors = Some (collect_errors issues) \<rparr>
      | Inr typed \<Rightarrow> \<lparr> v_success = True, v_data = Some typed, v_errors = None \<rparr>)"

text \<open>The messages that the rules of the password schema add for a password, in order.\<close>

definition password_failures :: "string \<Rightarrow> string list" where
  "password_failures pw = fst (run_checks passwordSchema pw)"

section \<open>The record store: Prisma over the User table\<close>

text \<open>
  The columns of \<^verbatim>\<open>"User"\<close> (prisma/migrations/init/migration.sql) that the handlers
  read. The table carries \<^verbatim>\<open>CONSTRAINT "User_email_key" UNIQUE ("email")\<close>:
  \<^verbatim>\<open>prisma.user.create\<close> with an email that is already in the table is refused by the
  database, and the client throws its known-request error with the code P2002. The
  identifier of a new row comes from a generator, a parameter here.
\<close>

record user =
  user_id :: string
  user_email :: string
  user_password :: string
  user_name :: string

record user_create =
  new_name :: string
  new_email :: string
  new_password :: string

definition findUnique :: "user list \<Rightarrow> string \<Rightarrow> user option" where
  "findUnique db e = find (\<lambda>u. user_email u = e) db"

definition create ::
  "(user list \<Rightarrow> string) \<Rightarrow> user list \<Rightarrow> user_create \<Rightarrow> exn + user \<times> user list" where
  "create new_id db d =
     (if list_ex (\<lambda>u. user_email u = new_email d) db
      then Inl (PrismaClientKnownRequestError ''P2002''
                  ''Unique constraint failed on the fields: (email)'')
      else (let u = \<lparr> user_id = new_id db, user_email = new_email d,
                       user_password = new_password d, user_name = new_name d \<rparr>
            in Inr (u, db @ [u])))"

section \<open>Asynchronous handlers\<close>

text \<open>
  A route handler is an \<^verbatim>\<open>async\<close> function: it runs until its next \<^verbatim>\<open>await\<close> of a
  store or bcrypt call, and is resumed with the outcome of the call; between the two,
  other requests run. A handler is therefore the tree of its awaits, each with the
  continuation that takes the outcome. A rejected \<^verbatim>\<open>create\<close> is raised inside the
  handler, so its continuation takes the error as well.
\<close>

datatype 'r prog =
    Return 'r
  | Throw exn
  | FindUnique string "user option \<Rightarrow> 'r prog"
  | Create user_create "exn + user \<Rightarrow> 'r prog"
  | BcryptHash string nat "string \<Rightarrow> 'r prog"
  | BcryptCompare string string "bool \<Rightarrow> 'r prog"

text \<open>\<^verbatim>\<open>try { ... } catch (error) { ... }\<close> around a handler body.\<close>

primrec try_catch :: "'r prog \<Rightarrow> (exn \<Rightarrow> 'r prog) \<Rightarrow> 'r prog" where
  "try_catch (Return r) h = Return r"
| "try_catch (Throw e) h = h e"
| "try_catch (FindUnique e k) h = FindUnique e (\<lambda>x. try_catch (k x) h)"
| "try_catch (Create d k) h = Create d (\<lambda>x. try_catch (k x) h)"
| "try_catch (BcryptHash s n k) h = BcryptHash s n (\<lambda>x. try_catch (k x) h)"
| "try_catch (BcryptCompare s t k) h = BcryptCompare s t (\<lambda>x. try_catch (k x) h)"

text \<open>
  What a handler finds around it: the environment variables, the clock, the keyed hash
  of the token library, bcrypt, and the generator of row identifiers.
\<close>

record platform =
  p_node_env :: "string option"
  p_jwt_secret :: string
  p_now :: nat
  p_hmac :: "string \<Rightarrow> string \<Rightarrow> string"
  p_bcrypt_hash :: "string \<Rightarrow> nat \<Rightarrow> string"
  p_bcrypt_compare :: "string \<Rightarrow> string \<Rightarrow> bool"
  p_new_id :: "user list \<Rightarrow> string"

text \<open>One resumption: the awaited call runs against the table and the handler goes on.\<close>

fun step :: "platform \<Rightarrow> 'r prog \<Rightarrow> user list \<Rightarrow> 'r prog \<times> user list" where
  "step p (Return r) db = (Return r, db)"
| "step p (Throw e) db = (Throw e, db)"
| "step p (FindUnique e k) db = (k (findUnique db e), db)"
| "step p (Create d k) db =
     (case create (p_new_id p) db d of
        Inl e \<Rightarrow> (k (Inl e), db)
      | Inr (u, db') \<Rightarrow> (k (Inr u), db'))"
| "step p (BcryptHash s n k) db = (k (p_bcrypt_hash p s n), db)"
| "step p (BcryptCompare s t k) db = (k (p_bcrypt_compare p s t), db)"

text \<open>A handler run to its end with no other request in between.\<close>

primrec exec :: "platform \<Rightarrow> 'r prog \<Rightarrow> user list \<Rightarrow> (exn + 'r) \<times> user list" where
  "exec p (Return r) db = (Inr r, db)"
| "exec p (Throw e) db = (Inl e, db)"
| "exec p (FindUnique e k) db = exec p (k (findUnique db e)) db"
| "exec p (Create d k) db =
     (case create (p_new_id p) db d of
        Inl e \<Rightarrow> exec p (k (Inl e)) db
      | Inr (u, db') \<Rightarrow> exec p (k (Inr u)) db')"
| "exec p (BcryptHash s n k) db = exec p (k (p_bcrypt_hash p s n)) db"
| "exec p (BcryptCompare s t k) db = exec p (k (p_bcrypt_compare p s t)) db"

text \<open>
  Two requests in flight. The schedule says which of them is resumed next (\<open>False\<close> the
  first, \<open>True\<close> the second); when it is used up the first runs to its end, then the
  second.
\<close>

fun run2 ::
  "platform \<Rightarrow> bool list \<Rightarrow> 'r prog \<Rightarrow> 'r prog \<Rightarrow> user list \<Rightarrow>
   ((exn + 'r) \<times> (exn + 'r)) \<times> user list" where
  "run2 p [] a b db =
     (case exec p a db of (ra, db1) \<Rightarrow>
        (case exec p b db1 of (rb, db2) \<Rightarrow> ((ra, rb), db2)))"
| "run2 p (False # sched) a b db = (case step p a db of (a', db') \<Rightarrow> run2 p sched a' b db')"
| "run2 p (True # sched) a b db = (case step p b db of (b', db') \<Rightarrow> run2 p sched a b' db')"

section \<open>routeHandler.ts\<close>

definition withErrorHandling ::
  "platform \<Rightarrow> (next_request \<Rightarrow> 'a next_response prog) \<Rightarrow> string option \<Rightarrow>
   next_request \<Rightarrow> 'a next_response prog" where
  "withErrorHandling p handler context =
     (\<lambda>req. try_catch (handler req)
        (\<lambda>error. Return (handleError (p_node_env p) (p_now p) error context)))"

section \<open>The signup and login routes\<close>

text \<open>The payload of a successful signup or login: the token and the user summary.\<close>

record AuthUser =
  au_id :: string
  au_email :: string
  au_name :: string

record session =
  s_token :: string
  s_user :: AuthUser

text \<open>
  \<^verbatim>\<open>await req.json()\<close> rejects with a syntax error when the body is not JSON.
  \<^verbatim>\<open>validation.data!\<close> holds every key of the schema once the validation has
  succeeded, so the branches that find a key missing are never taken.
\<close>

definition signup_POST :: "platform \<Rightarrow> next_request \<Rightarrow> session next_response prog" where
  "signup_POST p req =
     (case json_body req of
        None \<Rightarrow> Throw (SyntaxError ''Unexpected end of JSON input'')
      | Some body \<Rightarrow>
          (let validation = validateInput signupSchema body in
           if \<not> v_success validation
           then Return (validationErrorResponse (p_node_env p) (p_now p)
                          (case v_errors validation of None \<Rightarrow> [] | Some errors \<Rightarrow> errors))
           else
             (case v_data validation of
                None \<Rightarrow> Throw (Error ''validation.data is undefined'')
              | Some d \<Rightarrow>
                  (case (map_of d ''name'', map_of d ''email'', map_of d ''password'') of
                     (Some name, Some email, Some password) \<Rightarrow>
                       FindUnique email (\<lambda>existingUser.
                         case existingUser of
                           Some u \<Rightarrow>
                             Return (conflictResponse (p_node_env p) (p_now p)
                               (''User with email '' @ [CHR 0x22] @ email @ [CHR 0x22] @
                                '' already exists. Please try logging in or use a different email.''))
                         | None \<Rightarrow>
                             BcryptHash password AUTH_CONFIG_BCRYPT_ROUNDS (\<lambda>hashedPassword.
                               Create \<lparr> new_name = name, new_email = email,
                                        new_password = hashedPassword \<rparr>
                                 (\<lambda>created.
                                    case created of
                                      Inl e \<Rightarrow> Throw e
                                    | Inr user \<Rightarrow>
                                        (case generateToken (p_hmac p) (p_jwt_secret p) (p_now p)
                                                (user_id user) (user_email user)
                                                generateToken_default_expiresIn of
                                           Inl e \<Rightarrow> Throw e
                                         | Inr token \<Rightarrow>
                                             Return (successResponse (p_now p)
                                               \<lparr> s_token = token,
                                                 s_user = \<lparr> au_id = user_id user,
                                                            au_email = user_email user,
                                                            au_name = user_name user \<rparr> \<rparr>
                                               (Some SUCCESS_MESSAGES_USER_CREATED) 201)))))
                   | _ \<Rightarrow> Throw (Error ''validation.data lacks a key of the schema'')))))"

definition signup_handler :: "platform \<Rightarrow> next_request \<Rightarrow> session next_response prog" where
  "signup_handler p = withErrorHandling p (signup_POST p) (Some ''SIGNUP'')"

definition login_POST :: "platform \<Rightarrow> next_request \<Rightarrow> session next_response prog" where
  "login_POST p req =
     (case json_body req of
        None \<Rightarrow> Throw (SyntaxError ''Unexpected end of JSON input'')
      | Some body \<Rightarrow>
          (let validation = validateInput loginSchema body in
           if \<not> v_success validation
           then Return (validationErrorResponse (p_node_env p) (p_now p)
                          (case v_errors validation of None \<Rightarrow> [] | Some errors \<Rightarrow> errors))
           else
             (case v_data validation of
                None \<Rightarrow> Throw (Error ''validation.data is undefined'')
              | Some d \<Rightarrow>
                  (case (map_of d ''email'', map_of d ''password'') of
                     (Some email, Some password) \<Rightarrow>
                       FindUnique email (\<lambda>found.
                         case found of
                           None \<Rightarrow>
                             Return (unauthorizedResponse (p_node_env p) (p_now p)
                                       ERROR_MESSAGES_INVALID_CREDENTIALS)
                         | Some user \<Rightarrow>
                             BcryptCompare password (user_password user) (\<lambda>isPasswordValid.
                               if \<not> isPasswordValid
                               then Return (unauthorizedResponse (p_node_env p) (p_now p)
                                              ERROR_MESSAGES_INVALID_CREDENTIALS)
                               else
                                 (case generateToken (p_hmac p) (p_jwt_secret p) (p_now p)
                                         (user_id user) (user_email user)
                                         generateToken_default_expiresIn of
                                    Inl e \<Rightarrow> Throw e
                                  | Inr token \<Rightarrow>
                                      Return (successResponse (p_now p)
                                        \<lparr> s_token = token,
                                          s_user = \<lparr> au_id = user_id user,
                                                     au_email = user_email user,
                                                     au_name = user_name user \<rparr> \<rparr>
                                        (Some SUCCESS_MESSAGES_LOGIN_SUCCESSFUL) HTTP_STATUS_OK))))
                   | _ \<Rightarrow> Throw (Error ''validation.data lacks a key of the schema'')))))"

definition login_handler :: "platform \<Rightarrow> next_request \<Rightarrow> session next_response prog" where
  "login_handler p = withErrorHandling p (login_POST p) (Some ''LOGIN'')"

section \<open>useAuth.ts: the client-held session\<close>

text \<open>
  The hook keeps \<^verbatim>\<open>token\<close> and \<^verbatim>\<open>user\<close> in component state, both null at first, and
  mirrors them in \<^verbatim>\<open>localStorage\<close> under the keys \<^verbatim>\<open>authToken\<close> and \<^verbatim>\<open>user\<close>.
  \<^verbatim>\<open>JSON.parse\<close> is a parameter: it returns the parsed value or throws a syntax error.
  The cast \<^verbatim>\<open>as AuthUser\<close> checks nothing, so the state holds whatever was parsed.
\<close>

record auth_state =
  localStorage :: "string \<rightharpoonup> string"
  st_token :: "string option"
  st_user :: "json option"

definition truthy_json :: "json \<Rightarrow> bool" where
  "truthy_json v =
     (case v of JNull \<Rightarrow> False | JBool b \<Rightarrow> b | JNum n \<Rightarrow> n \<noteq> 0 | JStr s \<Rightarrow> s \<noteq> []
      | JArr a \<Rightarrow> True | JObj kvs \<Rightarrow> True)"

text \<open>
  The effect that runs on mount. Its only call that can throw is \<^verbatim>\<open>JSON.parse\<close>, inside
  the \<^verbatim>\<open>try\<close>; the result is the state after the effect, or the exception that left it.
\<close>

definition useAuth_load :: "(string \<Rightarrow> exn + json) \<Rightarrow> auth_state \<Rightarrow> exn + auth_state" where
  "useAuth_load JSON_parse st =
     (let storedToken = localStorage st ''authToken'';
          storedUser = localStorage st ''user'';
          st1 = (case storedToken of
                   None \<Rightarrow> st
                 | Some t \<Rightarrow> if truthy_string t then st\<lparr>st_token := Some t\<rparr> else st)
      in case storedUser of
           None \<Rightarrow> Inr st1
         | Some s \<Rightarrow>
             if truthy_string s then
               (case JSON_parse s of
                  Inr parsedUser \<Rightarrow> Inr (st1\<lparr>st_user := Some parsedUser\<rparr>)
                | Inl err \<Rightarrow> Inr (st1\<lparr>localStorage := (localStorage st1)(''user'' := None)\<rparr>))
             else Inr st1)"

definition isAuthenticated :: "auth_state \<Rightarrow> bool" where
  "isAuthenticated st =
     ((case st_token st of None \<Rightarrow> False | Some t \<Rightarrow> truthy_string t) \<and>
      (case st_user st of None \<Rightarrow> False | Some u \<Rightarrow> truthy_json u))"

text \<open>The state of a component that has just been mounted over a given store.\<close>

definition mounted :: "(string \<rightharpoonup> string) \<Rightarrow> auth_state" where
  "mounted store = \<lparr> localStorage = store, st_token = None, st_user = None \<rparr>"

section \<open>The route gate (claim C2)\<close>

text \<open>
  C2. For a path that starts with one of the protected prefixes the gate redirects to
  /login exactly when the authToken cookie is absent or empty; any non-empty value, even
  one no verifier would accept, passes; a path with no protected prefix always passes.
\<close>

theorem middleware_gate:
  "(isProtectedRoute (pathname request) \<longrightarrow>
      (middleware request = Redirect ''/login'' \<longleftrightarrow>
         (cookies request ''authToken'' = None \<or> cookies request ''authToken'' = Some [])) \<and>
      (\<forall>v. cookies request ''authToken'' = Some v \<and> v \<noteq> [] \<longrightarrow> middleware request = Next)) \<and>
   (\<not> isProtectedRoute (pathname request) \<longrightarrow> middleware request = Next) \<and>
   (isProtectedRoute (pathname request) \<longleftrightarrow>
      (\<exists>route \<in> {''/create'', ''/profile'', ''/messages'', ''/dashboard''}.
         \<exists>rest. pathname request = route @ rest))"
proof -
  have prefix: "\<And>p r. startsWith p r \<longleftrightarrow> (\<exists>rest. p = r @ rest)"
    unfolding startsWith_def
    by (metis append_eq_conv_conj append_take_drop_id)
  have "isProtectedRoute (pathname request) \<longleftrightarrow>
      (\<exists>route \<in> {''/create'', ''/profile'', ''/messages'', ''/dashboard''}.
         \<exists>rest. pathname request = route @ rest)"
    unfolding isProtectedRoute_def protectedRoutes_def
    by (simp add: prefix)
  then show ?thesis
    by (auto simp: middleware_def truthy_string_def split: option.splits)
qed

theorem middleware_gate_witness:
  "isProtectedRoute ''/create/new'' \<and>
   middleware \<lparr> pathname = ''/create/new'', cookies = Map.empty, authorization = None,
                json_body = None \<rparr> = Redirect ''/login'' \<and>
   middleware \<lparr> pathname = ''/create/new'', cookies = [''authToken'' \<mapsto> ''''], authorization = None,
                json_body = None \<rparr> = Redirect ''/login'' \<and>
   middleware \<lparr> pathname = ''/create/new'', cookies = [''authToken'' \<mapsto> ''garbage''],
                authorization = None, json_body = None \<rparr> = Next \<and>
   \<not> isProtectedRoute ''/posts'' \<and>
   middleware \<lparr> pathname = ''/posts'', cookies = Map.empty, authorization = None,
                json_body = None \<rparr> = Next"
  using
    middleware_gate [of "\<lparr> pathname = ''/create/new'', cookies = Map.empty, authorization = None,
                json_body = None \<rparr>"]
    middleware_gate [of "\<lparr> pathname = ''/create/new'', cookies = [''authToken'' \<mapsto> ''''],
                authorization = None, json_body = None \<rparr>"]
    middleware_gate [of "\<lparr> pathname = ''/create/new'', cookies = [''authToken'' \<mapsto> ''garbage''],
                authorization = None, json_body = None \<rparr>"]
    middleware_gate [of "\<lparr> pathname = ''/posts'', cookies = Map.empty, authorization = None,
                json_body = None \<rparr>"]
  by (simp add: isProtectedRoute_def protectedRoutes_def startsWith_def)

section \<open>Reading the bearer token (claims C8 and C10)\<close>

lemma startsWith_iff: "startsWith s p \<longleftrightarrow> (\<exists>r. s = p @ r)"
  unfolding startsWith_def
proof
  assume "take (length p) s = p"
  then have "s = p @ drop (length p) s" by (metis append_take_drop_id)
  then show "\<exists>r. s = p @ r" ..
next
  assume "\<exists>r. s = p @ r"
  then show "take (length p) s = p" by auto
qed

text \<open>
  C8. \<^verbatim>\<open>extractToken\<close> returns a token exactly when the authorization header starts
  with the seven characters "Bearer " (capital B, one space), and the token is
  everything after them; a missing header, a prefix in another case or any other prefix
  gives null. The function has no failing branch: its result is a token or null.
\<close>

theorem extractToken_bearer:
  "(extractToken req = Some t \<longleftrightarrow> authorization req = Some (''Bearer '' @ t)) \<and>
   (extractToken req = None \<longleftrightarrow>
      (authorization req = None \<or>
       (\<exists>h. authorization req = Some h \<and> \<not> (\<exists>r. h = ''Bearer '' @ r)))) \<and>
   extractToken (req\<lparr>authorization := None\<rparr>) = None \<and>
   extractToken (req\<lparr>authorization := Some (''bearer '' @ t)\<rparr>) = None \<and>
   extractToken (req\<lparr>authorization := Some ''Bearer''\<rparr>) = None \<and>
   extractToken (req\<lparr>authorization := Some (''Bearer  '' @ t)\<rparr>) = Some ('' '' @ t)"
proof -
  have 1: "extractToken req = Some t \<longleftrightarrow> authorization req = Some (''Bearer '' @ t)"
    by (cases "authorization req") (auto simp: extractToken_def startsWith_iff substring_def)
  have 2: "extractToken req = None \<longleftrightarrow>
      (authorization req = None \<or>
       (\<exists>h. authorization req = Some h \<and> \<not> (\<exists>r. h = ''Bearer '' @ r)))"
    by (cases "authorization req") (auto simp: extractToken_def startsWith_iff substring_def)
  have 3: "extractToken (req\<lparr>authorization := None\<rparr>) = None"
    by (simp add: extractToken_def)
  have 4: "extractToken (req\<lparr>authorization := Some (''bearer '' @ t)\<rparr>) = None"
    by (simp add: extractToken_def startsWith_iff)
  have 5: "extractToken (req\<lparr>authorization := Some ''Bearer''\<rparr>) = None"
    by (simp add: extractToken_def startsWith_iff)
  have 6: "extractToken (req\<lparr>authorization := Some (''Bearer  '' @ t)\<rparr>) = Some ('' '' @ t)"
    by (simp add: extractToken_def startsWith_iff substring_def)
  from 1 2 3 4 5 6 show ?thesis by blast
qed







section \<open>The validation error response (claim C7)\<close>

text \<open>
  C7, as the code has it. For every field-error mapping the validation error response
  has status 400 (on the response and in the envelope), code "VALIDATION_ERROR" and the
  message "Invalid input data"; the details member, the object
  \<^verbatim>\<open>{validationErrors: {field: message, ...}}\<close>, is attached exactly when NODE_ENV is
  "development", and is left out in every other mode.
\<close>

theorem validationErrorResponse_envelope:
  "res_status (validationErrorResponse node_env now errors :: 'a next_response) = 400 \<and>
   res_body (validationErrorResponse node_env now errors :: 'a next_response) =
     ApiError ''Invalid input data'' ''VALIDATION_ERROR'' 400
       (if node_env = Some ''development''
        then Some (JObj [(''validationErrors'', JObj (map (\<lambda>(k, v). (k, JStr v)) errors))])
        else None)
       now"
  by (simp add: validationErrorResponse_def errorResponse_def ERROR_MESSAGES_INVALID_INPUT_def
      HTTP_STATUS_BAD_REQUEST_def)

text \<open>
  The claim as it was stated fails in a mode that is not production and not development:
  with NODE_ENV "test", and with NODE_ENV unset, the envelope carries no details.
\<close>

theorem validationErrorResponse_test_mode:
  "Some ''test'' \<noteq> Some ''production'' \<and>
   details (res_body (validationErrorResponse (Some ''test'') 0
      [(''email'', ''Invalid email format'')] :: unit next_response)) = None \<and>
   details (res_body (validationErrorResponse None 0
      [(''email'', ''Invalid email format'')] :: unit next_response)) = None"
  by (simp add: validationErrorResponse_def errorResponse_def)

section \<open>Field errors of a password (claim C6)\<close>

lemma map_of_collect_errors:
  "map_of (foldl (\<lambda>errors i. AList.update (join ''.'' (path i)) (issue_message i) errors) acc issues) k =
     (if filter (\<lambda>i. join ''.'' (path i) = k) issues = [] then map_of acc k
      else Some (issue_message (last (filter (\<lambda>i. join ''.'' (path i) = k) issues))))"
  by (induction issues arbitrary: acc) (simp_all add: update_conv')

lemma distinct_collect_errors:
  "distinct (map fst acc) \<Longrightarrow>
   distinct (map fst (foldl (\<lambda>errors i. AList.update (join ''.'' (path i)) (issue_message i) errors) acc issues))"
  by (induction issues arbitrary: acc) (simp_all add: distinct_update)

lemma filter_field_issues:
  "filter (\<lambda>i. join ''.'' (path i) = k) (map (\<lambda>m. \<lparr> path = [k'], issue_message = m \<rparr>) msgs) =
     (if k' = k then map (\<lambda>m. \<lparr> path = [k'], issue_message = m \<rparr>) msgs else [])"
  by (induction msgs) auto

text \<open>The rules of the password schema, one message for each rule that fails.\<close>

lemma password_failures_rules:
  "password_failures pw =
     (if length pw < 8 then [''Password must be at least 8 characters long''] else []) @
     (if \<not> list_ex (\<lambda>c. c \<in> set upper_letters) pw
      then [''Password must contain at least one uppercase letter''] else []) @
     (if \<not> list_ex (\<lambda>c. c \<in> set lower_letters) pw
      then [''Password must contain at least one lowercase letter''] else []) @
     (if \<not> list_ex (\<lambda>c. c \<in> set dec_digits) pw
      then [''Password must contain at least one number''] else []) @
     (if \<not> list_ex (\<lambda>c. c \<in> set ''@$!%*?&'') pw
      then [''Password must contain at least one special character (@$!%*?&)''] else [])"
  by (simp add: password_failures_def passwordSchema_def)

text \<open>
  C6, as the code has it. When the password of a signup payload breaks one or more of
  the rules, the validation fails and its field errors hold exactly one message for the
  password: the message of the last rule that fails, in the order length, uppercase,
  lowercase, digit, special character. The messages of the rules that fail before it
  are overwritten; no field has more than one message.
\<close>

theorem validateInput_password_last_rule:
  assumes pw: "map_of kvs ''password'' = Some (JStr pw)"
    and fails: "password_failures pw \<noteq> []"
  shows "\<exists>errors.
           validateInput signupSchema (JObj kvs) =
             \<lparr> v_success = False, v_data = None, v_errors = Some errors \<rparr> \<and>
           map_of errors ''password'' = Some (last (password_failures pw)) \<and>
           distinct (map fst errors)"
proof -
  let ?mk = "\<lambda>k r. case r of
                   Inl msgs \<Rightarrow> map (\<lambda>m. \<lparr> path = [k], issue_message = m \<rparr>) msgs
                 | Inr v \<Rightarrow> []"
  let ?n = "?mk ''name'' (parse_string nameSchema (map_of kvs ''name''))"
  let ?e = "?mk ''email'' (parse_string emailSchema (map_of kvs ''email''))"
  let ?p = "map (\<lambda>m. \<lparr> path = [''password''], issue_message = m \<rparr>) (password_failures pw)"
  have ps: "parse_string passwordSchema (map_of kvs ''password'') = Inl (password_failures pw)"
    using fails
    by (cases "run_checks passwordSchema pw") (simp add: parse_string_def pw password_failures_def)
  have sp: "safeParse signupSchema (JObj kvs) = Inl (?n @ ?e @ ?p)"
    using fails by (simp add: safeParse_def signupSchema_def ps Let_def)
  have fn: "filter (\<lambda>i. join ''.'' (path i) = ''password'') ?n = []"
    by (simp add: filter_field_issues split: sum.splits)
  have fe: "filter (\<lambda>i. join ''.'' (path i) = ''password'') ?e = []"
    by (simp add: filter_field_issues split: sum.splits)
  have fp: "filter (\<lambda>i. join ''.'' (path i) = ''password'') ?p = ?p"
    by (simp add: filter_field_issues)
  have f: "filter (\<lambda>i. join ''.'' (path i) = ''password'') (?n @ ?e @ ?p) = ?p"
    by (simp only: filter_append fn fe fp append_Nil)
  have m: "map_of (collect_errors (?n @ ?e @ ?p)) ''password'' = Some (last (password_failures pw))"
    unfolding collect_errors_def map_of_collect_errors f
    using fails by (simp add: last_map)
  have d: "distinct (map fst (collect_errors (?n @ ?e @ ?p)))"
    unfolding collect_errors_def by (rule distinct_collect_errors) simp
  show ?thesis
    using m d by (simp add: validateInput_def sp)
qed

theorem validateInput_password_last_rule_witness:
  "map_of [(''name'', JStr ''Jo''), (''email'', JStr ''jo@test.com''), (''password'', JStr ''abc'')]
     ''password'' = Some (JStr ''abc'') \<and>
   password_failures ''abc'' =
     [''Password must be at least 8 characters long'',
      ''Password must contain at least one uppercase letter'',
      ''Password must contain at least one number'',
      ''Password must contain at least one special character (@$!%*?&)''] \<and>
   (\<exists>errors.
      validateInput signupSchema
        (JObj [(''name'', JStr ''Jo''), (''email'', JStr ''jo@test.com''),
               (''password'', JStr ''abc'')]) =
        \<lparr> v_success = False, v_data = None, v_errors = Some errors \<rparr> \<and>
      map_of errors ''password'' =
        Some ''Password must contain at least one special character (@$!%*?&)'')"
proof -
  have f: "password_failures ''abc'' =
     [''Password must be at least 8 characters long'',
      ''Password must contain at least one uppercase letter'',
      ''Password must contain at least one number'',
      ''Password must contain at least one special character (@$!%*?&)'']"
    by code_simp
  have k: "map_of [(''name'', JStr ''Jo''), (''email'', JStr ''jo@test.com''),
                   (''password'', JStr ''abc'')] ''password'' = Some (JStr ''abc'')"
    by simp
  have n: "password_failures ''abc'' \<noteq> []"
    by (simp add: f)
  show ?thesis
    using validateInput_password_last_rule [OF k n] f k by auto
qed

text \<open>
  The claim as it was stated fails on the password "abc", which breaks four rules: the
  field errors hold the message of the special-character rule and none of the other
  three.
\<close>

theorem validateInput_password_abc:
  "password_failures ''abc'' =
     [''Password must be at least 8 characters long'',
      ''Password must contain at least one uppercase letter'',
      ''Password must contain at least one number'',
      ''Password must contain at least one special character (@$!%*?&)''] \<and>
   validateInput signupSchema
     (JObj [(''name'', JStr ''Jo''), (''email'', JStr ''jo@test.com''),
            (''password'', JStr ''abc'')]) =
   \<lparr> v_success = False, v_data = None,
     v_errors = Some [(''password'',
       ''Password must contain at least one special character (@$!%*?&)'')] \<rparr>"
  by code_simp

section \<open>Login with a wrong password (claim C3)\<close>

lemma validateInput_login_accepts:
  assumes "map_of kvs ''email'' = Some (JStr e)" "email_regex e"
    and "map_of kvs ''password'' = Some (JStr pw)" "pw \<noteq> []"
  shows "validateInput loginSchema (JObj kvs) =
           \<lparr> v_success = True,
             v_data = Some [(''email'', trim (toLowerCase e)), (''password'', pw)],
             v_errors = None \<rparr>"
  using assms
  by (simp add: validateInput_def safeParse_def loginSchema_def emailSchema_def parse_string_def
      Let_def)

text \<open>
  C3, as the code has it. A login request whose email has the shape of an address and
  whose password is not empty and does not match gets the envelope
  \<^verbatim>\<open>{success:false, error:"Invalid email or password", code:"UNAUTHORIZED", status:401}\<close>
  with HTTP status 401, and gets the very same response from a store that holds no user
  with that email (\<open>db1\<close>) and from a store that holds one whose password differs
  (\<open>db2\<close>); neither store is changed.
\<close>

theorem login_invalid_credentials:
  assumes body: "json_body req = Some (JObj kvs)"
    and email: "map_of kvs ''email'' = Some (JStr e)" "email_regex e"
    and password: "map_of kvs ''password'' = Some (JStr pw)" "pw \<noteq> []"
    and absent: "findUnique db1 (trim (toLowerCase e)) = None"
    and present: "findUnique db2 (trim (toLowerCase e)) = Some u"
    and wrong: "\<not> p_bcrypt_compare p pw (user_password u)"
  shows "exec p (login_handler p req) db1 =
           (Inr \<lparr> res_body = ApiError ''Invalid email or password'' ''UNAUTHORIZED'' 401 None (p_now p),
                  res_status = 401 \<rparr>, db1) \<and>
         exec p (login_handler p req) db2 =
           (Inr \<lparr> res_body = ApiError ''Invalid email or password'' ''UNAUTHORIZED'' 401 None (p_now p),
                  res_status = 401 \<rparr>, db2)"
proof -
  have v: "validateInput loginSchema (JObj kvs) =
           \<lparr> v_success = True,
             v_data = Some [(''email'', trim (toLowerCase e)), (''password'', pw)],
             v_errors = None \<rparr>"
    using email password by (rule validateInput_login_accepts)
  have r: "(unauthorizedResponse (p_node_env p) (p_now p) ERROR_MESSAGES_INVALID_CREDENTIALS
             :: session next_response) =
           \<lparr> res_body = ApiError ''Invalid email or password'' ''UNAUTHORIZED'' 401 None (p_now p),
             res_status = 401 \<rparr>"
    by (simp add: unauthorizedResponse_def errorResponse_def
        ERROR_MESSAGES_INVALID_CREDENTIALS_def HTTP_STATUS_UNAUTHORIZED_def)
  have 1: "exec p (login_handler p req) db1 =
           (Inr \<lparr> res_body = ApiError ''Invalid email or password'' ''UNAUTHORIZED'' 401 None (p_now p),
                  res_status = 401 \<rparr>, db1)"
    by (simp add: login_handler_def withErrorHandling_def login_POST_def body v absent r)
  have 2: "exec p (login_handler p req) db2 =
           (Inr \<lparr> res_body = ApiError ''Invalid email or password'' ''UNAUTHORIZED'' 401 None (p_now p),
                  res_status = 401 \<rparr>, db2)"
    by (simp add: login_handler_def withErrorHandling_def login_POST_def body v present wrong r)
  from 1 2 show ?thesis ..
qed

theorem login_invalid_credentials_witness:
  "email_regex ''Jo@Test.com'' \<and>
   findUnique [] (trim (toLowerCase ''Jo@Test.com'')) = None \<and>
   findUnique [\<lparr> user_id = ''u0'', user_email = ''jo@test.com'', user_password = ''#Passw0rd!'',
                 user_name = ''Jo'' \<rparr>] (trim (toLowerCase ''Jo@Test.com'')) =
     Some \<lparr> user_id = ''u0'', user_email = ''jo@test.com'', user_password = ''#Passw0rd!'',
            user_name = ''Jo'' \<rparr> \<and>
   exec \<lparr> p_node_env = Some ''production'', p_jwt_secret = ''s3cret'', p_now = 1700000000123,
          p_hmac = (\<lambda>k m. k @ m), p_bcrypt_hash = (\<lambda>s n. ''#'' @ s),
          p_bcrypt_compare = (\<lambda>s h. h = ''#'' @ s), p_new_id = (\<lambda>db. ''u0'') \<rparr>
     (login_handler
        \<lparr> p_node_env = Some ''production'', p_jwt_secret = ''s3cret'', p_now = 1700000000123,
          p_hmac = (\<lambda>k m. k @ m), p_bcrypt_hash = (\<lambda>s n. ''#'' @ s),
          p_bcrypt_compare = (\<lambda>s h. h = ''#'' @ s), p_new_id = (\<lambda>db. ''u0'') \<rparr>
        \<lparr> pathname = ''/api/auth/login'', cookies = Map.empty, authorization = None,
          json_body = Some (JObj [(''email'', JStr ''Jo@Test.com''),
                                  (''password'', JStr ''wrong'')]) \<rparr>)
     [\<lparr> user_id = ''u0'', user_email = ''jo@test.com'', user_password = ''#Passw0rd!'',
        user_name = ''Jo'' \<rparr>] =
   (Inr \<lparr> res_body = ApiError ''Invalid email or password'' ''UNAUTHORIZED'' 401 None 1700000000123,
          res_status = 401 \<rparr>,
    [\<lparr> user_id = ''u0'', user_email = ''jo@test.com'', user_password = ''#Passw0rd!'',
       user_name = ''Jo'' \<rparr>]) \<and>
   exec \<lparr> p_node_env = Some ''production'', p_jwt_secret = ''s3cret'', p_now = 1700000000123,
          p_hmac = (\<lambda>k m. k @ m), p_bcrypt_hash = (\<lambda>s n. ''#'' @ s),
          p_bcrypt_compare = (\<lambda>s h. h = ''#'' @ s), p_new_id = (\<lambda>db. ''u0'') \<rparr>
     (login_handler
        \<lparr> p_node_env = Some ''production'', p_jwt_secret = ''s3cret'', p_now = 1700000000123,
          p_hmac = (\<lambda>k m. k @ m), p_bcrypt_hash = (\<lambda>s n. ''#'' @ s),
          p_bcrypt_compare = (\<lambda>s h. h = ''#'' @ s), p_new_id = (\<lambda>db. ''u0'') \<rparr>
        \<lparr> pathname = ''/api/auth/login'', cookies = Map.empty, authorization = None,
          json_body = Some (JObj [(''email'', JStr ''Jo@Test.com''),
                                  (''password'', JStr ''wrong'')]) \<rparr>)
     [] =
   (Inr \<lparr> res_body = ApiError ''Invalid email or password'' ''UNAUTHORIZED'' 401 None 1700000000123,
          res_status = 401 \<rparr>, [])"
proof -
  let ?p = "\<lparr> p_node_env = Some ''production'', p_jwt_secret = ''s3cret'', p_now = 1700000000123,
          p_hmac = (\<lambda>k m. k @ m), p_bcrypt_hash = (\<lambda>s n. ''#'' @ s),
          p_bcrypt_compare = (\<lambda>s h. h = ''#'' @ s), p_new_id = (\<lambda>db. ''u0'') \<rparr>"
  let ?kvs = "[(''email'', JStr ''Jo@Test.com''), (''password'', JStr ''wrong'')]"
  let ?req = "\<lparr> pathname = ''/api/auth/login'', cookies = Map.empty, authorization = None,
          json_body = Some (JObj ?kvs) \<rparr>"
  let ?u = "\<lparr> user_id = ''u0'', user_email = ''jo@test.com'', user_password = ''#Passw0rd!'',
        user_name = ''Jo'' \<rparr>"
  have a: "json_body ?req = Some (JObj ?kvs)" by simp
  have b: "map_of ?kvs ''email'' = Some (JStr ''Jo@Test.com'')" by simp
  have c: "email_regex ''Jo@Test.com''" by code_simp
  have d: "map_of ?kvs ''password'' = Some (JStr ''wrong'')" by simp
  have e: "''wrong'' \<noteq> []" by simp
  have f: "findUnique [] (trim (toLowerCase ''Jo@Test.com'')) = None" by (simp add: findUnique_def)
  have g: "findUnique [?u] (trim (toLowerCase ''Jo@Test.com'')) = Some ?u" by code_simp
  have h: "\<not> p_bcrypt_compare ?p ''wrong'' (user_password ?u)" by simp
  show ?thesis
    using login_invalid_credentials [OF a b c d e f g h] c f g by simp
qed

text \<open>
  The claim as it was stated fails on the empty password, which matches no stored hash:
  the login schema rejects it before any lookup, and the answer is the validation error
  with status 400, not the 401 envelope.
\<close>

theorem login_empty_password:
  "email_regex ''jo@test.com'' \<and>
   \<not> (\<lambda>s h. h = ''#'' @ s) [] ''#Passw0rd!'' \<and>
   exec \<lparr> p_node_env = Some ''production'', p_jwt_secret = ''s3cret'', p_now = 1700000000123,
          p_hmac = (\<lambda>k m. k @ m), p_bcrypt_hash = (\<lambda>s n. ''#'' @ s),
          p_bcrypt_compare = (\<lambda>s h. h = ''#'' @ s), p_new_id = (\<lambda>db. ''u0'') \<rparr>
     (login_handler
        \<lparr> p_node_env = Some ''production'', p_jwt_secret = ''s3cret'', p_now = 1700000000123,
          p_hmac = (\<lambda>k m. k @ m), p_bcrypt_hash = (\<lambda>s n. ''#'' @ s),
          p_bcrypt_compare = (\<lambda>s h. h = ''#'' @ s), p_new_id = (\<lambda>db. ''u0'') \<rparr>
        \<lparr> pathname = ''/api/auth/login'', cookies = Map.empty, authorization = None,
          json_body = Some (JObj [(''email'', JStr ''jo@test.com''),
                                  (''password'', JStr [])]) \<rparr>)
     [\<lparr> user_id = ''u0'', user_email = ''jo@test.com'', user_password = ''#Passw0rd!'',
        user_name = ''Jo'' \<rparr>] =
   (Inr \<lparr> res_body = ApiError ''Invalid input data'' ''VALIDATION_ERROR'' 400 None 1700000000123,
          res_status = 400 \<rparr>,
    [\<lparr> user_id = ''u0'', user_email = ''jo@test.com'', user_password = ''#Passw0rd!'',
       user_name = ''Jo'' \<rparr>])"
proof -
  have c: "email_regex ''jo@test.com''" by code_simp
  have v: "validateInput loginSchema (JObj [(''email'', JStr ''jo@test.com''),
                                  (''password'', JStr [])]) =
           \<lparr> v_success = False, v_data = None,
             v_errors = Some [(''password'', ''Password is required'')] \<rparr>"
    by code_simp
  show ?thesis
    using c
    by (simp add: login_handler_def withErrorHandling_def login_POST_def v
        validationErrorResponse_def errorResponse_def ERROR_MESSAGES_INVALID_INPUT_def
        HTTP_STATUS_BAD_REQUEST_def)
qed

section \<open>Loading the client-held session (claim C9)\<close>

text \<open>
  C9, as the code has it. When the store holds a user summary that does not parse,
  loading the session leaves the user null, so \<^verbatim>\<open>isAuthenticated\<close> is false, and
  returns without an exception. If the summary is a non-empty string the effect removes
  the key \<^verbatim>\<open>user\<close> from the store and leaves every other key, the token among them, as
  it was. If the summary is the empty string the effect does not try to parse it and the
  store stays as it was.
\<close>

theorem useAuth_load_malformed:
  assumes "store ''user'' = Some s" "JSON_parse s = Inl err"
  shows "\<exists>st. useAuth_load JSON_parse (mounted store) = Inr st \<and>
              st_user st = None \<and> \<not> isAuthenticated st \<and>
              localStorage st = (if s = [] then store else store(''user'' := None))"
  using assms
  by (auto simp: useAuth_load_def mounted_def isAuthenticated_def truthy_string_def Let_def
      split: option.splits)

theorem useAuth_load_malformed_witness:
  "[''authToken'' \<mapsto> ''tok'', ''user'' \<mapsto> ''{bad''] ''user'' = Some ''{bad'' \<and>
   (\<lambda>s. if s = ''{bad'' then Inl (SyntaxError ''Unexpected token b in JSON'') else Inr JNull)
     ''{bad'' = Inl (SyntaxError ''Unexpected token b in JSON'') \<and>
   (\<exists>st. useAuth_load
           (\<lambda>s. if s = ''{bad'' then Inl (SyntaxError ''Unexpected token b in JSON'') else Inr JNull)
           (mounted [''authToken'' \<mapsto> ''tok'', ''user'' \<mapsto> ''{bad'']) = Inr st \<and>
         st_user st = None \<and> \<not> isAuthenticated st \<and>
         localStorage st ''user'' = None \<and> localStorage st ''authToken'' = Some ''tok'')"
proof -
  let ?store = "[''authToken'' \<mapsto> ''tok'', ''user'' \<mapsto> ''{bad'']"
  let ?parse = "\<lambda>s. if s = ''{bad'' then Inl (SyntaxError ''Unexpected token b in JSON'') else Inr JNull"
  have a: "?store ''user'' = Some ''{bad''" by simp
  have b: "?parse ''{bad'' = Inl (SyntaxError ''Unexpected token b in JSON'')" by simp
  from useAuth_load_malformed [of ?store "''{bad''" ?parse, OF a b]
  obtain st where st: "useAuth_load ?parse (mounted ?store) = Inr st" "st_user st = None"
    "\<not> isAuthenticated st" "localStorage st = ?store(''user'' := None)"
    by auto
  have "localStorage st ''user'' = None \<and> localStorage st ''authToken'' = Some ''tok''"
    by (simp add: st(4))
  with st a b show ?thesis by blast
qed

text \<open>
  The claim as it was stated fails on the empty summary: \<^verbatim>\<open>JSON.parse\<close> throws on the
  empty string, yet the effect never reaches it, and the store is left as it was, the
  summary still in it.
\<close>

theorem useAuth_load_empty_summary:
  "useAuth_load (\<lambda>s. Inl (SyntaxError ''Unexpected end of JSON input''))
     (mounted [''authToken'' \<mapsto> ''tok'', ''user'' \<mapsto> []]) =
   Inr \<lparr> localStorage = [''authToken'' \<mapsto> ''tok'', ''user'' \<mapsto> []], st_token = Some ''tok'',
         st_user = None \<rparr>"
  by (simp add: useAuth_load_def mounted_def truthy_string_def Let_def)

section \<open>Issuing and verifying tokens (claim C4)\<close>

lemma ms_7d: "ms ''7d'' = Some 604800000"
  by (simp add: ms_def dec_digits_def decode_nat_def ms_units_def ascii_lower_def)

lemma split_on_no_sep: "c \<notin> set a \<Longrightarrow> split_on c a = [a]"
  by (induction a) auto

lemma split_on_append: "c \<notin> set a \<Longrightarrow> split_on c (a @ c # r) = a # split_on c r"
  by (induction a) auto

lemma hex_digit_index: "n < 16 \<Longrightarrow> index_of (hex_digits ! n) hex_digits = Some n"
proof -
  have "\<forall>n \<in> set [0..<16]. index_of (hex_digits ! n) hex_digits = Some n"
    by code_simp
  then show "n < 16 \<Longrightarrow> index_of (hex_digits ! n) hex_digits = Some n"
    by simp
qed

lemma dec_digit_index: "n < 10 \<Longrightarrow> index_of (dec_digits ! n) dec_digits = Some n"
proof -
  have "\<forall>n \<in> set [0..<10]. index_of (dec_digits ! n) dec_digits = Some n"
    by code_simp
  then show "n < 10 \<Longrightarrow> index_of (dec_digits ! n) dec_digits = Some n"
    by simp
qed

lemma hex_digit_in: "n < 16 \<Longrightarrow> hex_digits ! n \<in> set hex_digits"
  by (rule nth_mem) (simp add: hex_digits_def)

lemma dec_digit_in: "n < 10 \<Longrightarrow> dec_digits ! n \<in> set dec_digits"
  by (rule nth_mem) (simp add: dec_digits_def)

lemma of_char_div_16: "(of_char c :: nat) div 16 < 16"
proof -
  have "(of_char c :: nat) < 16 * 16" by simp
  then show ?thesis by (rule less_mult_imp_div_less)
qed

lemma decode_encode_unit:
  "decode_text (encode_unit c @ r) = map_option (Cons c) (decode_text r)"
  by (cases "decode_text r")
     (simp_all add: encode_unit_def hex_digit_index of_char_div_16)

lemma decode_encode_text: "decode_text (encode_text s) = Some s"
  by (induction s) (simp_all add: encode_text_def decode_encode_unit)

lemma set_encode_text: "set (encode_text s) \<subseteq> set hex_digits"
  by (induction s) (auto simp: encode_text_def encode_unit_def hex_digit_in of_char_div_16)

lemma set_encode_nat: "set (encode_nat n) \<subseteq> set dec_digits"
proof (induction n rule: encode_nat.induct)
  case (1 n)
  show ?case
  proof (cases "n < 10")
    case True
    then show ?thesis by (subst encode_nat.simps) (simp add: dec_digit_in)
  next
    case False
    then show ?thesis using 1 by (subst encode_nat.simps) (simp add: dec_digit_in)
  qed
qed

lemma encode_nat_nonempty: "encode_nat n \<noteq> []"
  by (subst encode_nat.simps) simp

lemma foldl_encode_nat:
  "foldl (\<lambda>acc c. 10 * acc + (case index_of c dec_digits of None \<Rightarrow> 0 | Some d \<Rightarrow> d)) 0
     (encode_nat n) = n"
proof (induction n rule: encode_nat.induct)
  case (1 n)
  show ?case
  proof (cases "n < 10")
    case True
    then show ?thesis by (subst encode_nat.simps) (simp add: dec_digit_index)
  next
    case False
    then show ?thesis using 1 by (subst encode_nat.simps) (simp add: dec_digit_index)
  qed
qed

lemma decode_encode_nat: "decode_nat (encode_nat n) = Some n"
  using set_encode_nat [of n]
  by (auto simp: decode_nat_def encode_nat_nonempty foldl_encode_nat list_all_iff)

lemma decode_encode_opt_nat: "decode_opt_nat (encode_opt_nat v) = Some v"
  by (cases v) (simp_all add: decode_opt_nat_def encode_opt_nat_def decode_encode_nat encode_nat_nonempty)

lemma comma_not_hex: "CHR '','' \<notin> set (encode_text s)"
  using set_encode_text [of s] by (auto simp: hex_digits_def)

lemma dot_not_hex: "CHR ''.'' \<notin> set (encode_text s)"
  using set_encode_text [of s] by (auto simp: hex_digits_def)

lemma comma_not_dec: "CHR '','' \<notin> set (encode_opt_nat v)"
  using set_encode_nat by (cases v) (auto simp: encode_opt_nat_def dec_digits_def)

lemma dot_not_dec: "CHR ''.'' \<notin> set (encode_opt_nat v)"
  using set_encode_nat by (cases v) (auto simp: encode_opt_nat_def dec_digits_def)

lemma decode_encode_payload:
  "decode_payload (encode_payload \<lparr> jwt_id = i, jwt_email = e, iat = t0, exp = t1 \<rparr>) =
     Some \<lparr> jwt_id = i, jwt_email = e, iat = t0, exp = t1 \<rparr>"
proof -
  have "split_on CHR '','' (encode_payload \<lparr> jwt_id = i, jwt_email = e, iat = t0, exp = t1 \<rparr>) =
        [encode_text i, encode_text e, encode_opt_nat t0, encode_opt_nat t1]"
    by (simp add: encode_payload_def split_on_append split_on_no_sep comma_not_hex comma_not_dec)
  then show ?thesis
    by (simp add: decode_payload_def decode_encode_text decode_encode_opt_nat)
qed

lemma dot_not_payload: "CHR ''.'' \<notin> set (encode_payload p)"
  by (simp add: encode_payload_def dot_not_hex dot_not_dec)

lemma generateToken_7d:
  assumes "JWT_SECRET \<noteq> []"
  shows "generateToken hmac JWT_SECRET now userId email generateToken_default_expiresIn =
     Inr (jwt_header @ ''.'' @
          encode_payload \<lparr> jwt_id = userId, jwt_email = email, iat = Some (now div 1000),
                           exp = Some (now div 1000 + 604800) \<rparr> @ ''.'' @
          encode_text (hmac JWT_SECRET (jwt_header @ ''.'' @
            encode_payload \<lparr> jwt_id = userId, jwt_email = email, iat = Some (now div 1000),
                             exp = Some (now div 1000 + 604800) \<rparr>)))"
  using assms
  by (simp add: generateToken_def getJwtSecret_def truthy_string_def jwt_sign_def
      generateToken_default_expiresIn_def ms_7d Let_def)

lemma jwt_verify_signed:
  "jwt_verify hmac t
     (jwt_header @ CHR ''.'' # encode_payload \<lparr> jwt_id = i, jwt_email = e, iat = t0, exp = Some x \<rparr> @
      CHR ''.'' # encode_text (hmac secret (jwt_header @ CHR ''.'' #
         encode_payload \<lparr> jwt_id = i, jwt_email = e, iat = t0, exp = Some x \<rparr>)))
     secret =
   (if x \<le> t div 1000 then Inl (TokenExpiredError ''jwt expired'')
    else Inr \<lparr> jwt_id = i, jwt_email = e, iat = t0, exp = Some x \<rparr>)"
proof -
  let ?P = "\<lparr> jwt_id = i, jwt_email = e, iat = t0, exp = Some x \<rparr>"
  let ?sig = "encode_text (hmac secret (jwt_header @ CHR ''.'' # encode_payload ?P))"
  have h: "CHR ''.'' \<notin> set jwt_header"
    unfolding jwt_header_def by (rule dot_not_hex)
  have s: "split_on CHR ''.'' (jwt_header @ CHR ''.'' # (encode_payload ?P @ CHR ''.'' # ?sig)) =
        [jwt_header, encode_payload ?P, ?sig]"
    by (simp only: split_on_append [OF h] split_on_append [OF dot_not_payload]
        split_on_no_sep [OF dot_not_hex])
  show ?thesis
    unfolding jwt_verify_def s
    by (simp add: decode_encode_payload)
qed

text \<open>
  C4. With the signing secret set, \<^verbatim>\<open>generateToken\<close> returns a token for every
  subject id and email, and \<^verbatim>\<open>verifyToken\<close> on that token at the instant of issue
  succeeds with a payload that carries the id and the email (and the issue and expiry
  times, seven days apart). The same holds at every instant before the expiry. From the
  expiry on, \<^verbatim>\<open>verifyToken\<close> fails with "Token has expired", which is neither the
  answer to a malformed token nor the answer to a bad signature ("Invalid token").
\<close>

theorem generateToken_verifyToken:
  assumes "JWT_SECRET \<noteq> []"
  shows "\<exists>tok.
     generateToken hmac JWT_SECRET now userId email generateToken_default_expiresIn = Inr tok \<and>
     verifyToken hmac JWT_SECRET now tok =
       \<lparr> auth_success = True,
         auth_user = Some \<lparr> jwt_id = userId, jwt_email = email, iat = Some (now div 1000),
                            exp = Some (now div 1000 + 604800) \<rparr>,
         auth_error = None \<rparr> \<and>
     (\<forall>t. t div 1000 < now div 1000 + 604800 \<longrightarrow>
        verifyToken hmac JWT_SECRET t tok =
          \<lparr> auth_success = True,
            auth_user = Some \<lparr> jwt_id = userId, jwt_email = email, iat = Some (now div 1000),
                               exp = Some (now div 1000 + 604800) \<rparr>,
            auth_error = None \<rparr>) \<and>
     (\<forall>t. now div 1000 + 604800 \<le> t div 1000 \<longrightarrow>
        verifyToken hmac JWT_SECRET t tok =
          \<lparr> auth_success = False, auth_user = None, auth_error = Some ''Token has expired'' \<rparr>)"
proof -
  let ?P = "\<lparr> jwt_id = userId, jwt_email = email, iat = Some (now div 1000),
              exp = Some (now div 1000 + 604800) \<rparr>"
  define tok where "tok = jwt_header @ ''.'' @ encode_payload ?P @ ''.'' @
          encode_text (hmac JWT_SECRET (jwt_header @ ''.'' @ encode_payload ?P))"
  have g: "generateToken hmac JWT_SECRET now userId email generateToken_default_expiresIn = Inr tok"
    unfolding tok_def using assms by (rule generateToken_7d)
  have v: "\<And>t. verifyToken hmac JWT_SECRET t tok =
     (if now div 1000 + 604800 \<le> t div 1000
      then \<lparr> auth_success = False, auth_user = None, auth_error = Some ''Token has expired'' \<rparr>
      else \<lparr> auth_success = True, auth_user = Some ?P, auth_error = None \<rparr>)"
    unfolding tok_def using assms
    by (simp add: verifyToken_def getJwtSecret_def truthy_string_def jwt_verify_signed)
  show ?thesis
    by (rule exI [of _ tok]) (simp add: g v)
qed

theorem generateToken_verifyToken_witness:
  "''s3cret'' \<noteq> [] \<and>
   (\<exists>tok.
      generateToken (\<lambda>k m. k @ m) ''s3cret'' 1700000000123 ''u1'' ''a@b.co''
        generateToken_default_expiresIn = Inr tok \<and>
      verifyToken (\<lambda>k m. k @ m) ''s3cret'' 1700000000123 tok =
        \<lparr> auth_success = True,
          auth_user = Some \<lparr> jwt_id = ''u1'', jwt_email = ''a@b.co'', iat = Some 1700000000,
                             exp = Some 1700604800 \<rparr>,
          auth_error = None \<rparr> \<and>
      verifyToken (\<lambda>k m. k @ m) ''s3cret'' 1700604800000 tok =
        \<lparr> auth_success = False, auth_user = None, auth_error = Some ''Token has expired'' \<rparr>)"
proof -
  have s: "''s3cret'' \<noteq> []" by simp
  from generateToken_verifyToken [OF s, of "\<lambda>k m. k @ m" 1700000000123 "''u1''" "''a@b.co''"]
  obtain tok where
    g: "generateToken (\<lambda>k m. k @ m) ''s3cret'' 1700000000123 ''u1'' ''a@b.co''
          generateToken_default_expiresIn = Inr tok"
    and v: "verifyToken (\<lambda>k m. k @ m) ''s3cret'' 1700000000123 tok =
        \<lparr> auth_success = True,
          auth_user = Some \<lparr> jwt_id = ''u1'', jwt_email = ''a@b.co'',
                             iat = Some (1700000000123 div 1000),
                             exp = Some (1700000000123 div 1000 + 604800) \<rparr>,
          auth_error = None \<rparr>"
    and x: "\<forall>t. 1700000000123 div 1000 + 604800 \<le> t div 1000 \<longrightarrow>
        verifyToken (\<lambda>k m. k @ m) ''s3cret'' t tok =
          \<lparr> auth_success = False, auth_user = None, auth_error = Some ''Token has expired'' \<rparr>"
    by blast
  have "(1700000000123::nat) div 1000 + 604800 \<le> 1700604800000 div 1000" by simp
  with x have e: "verifyToken (\<lambda>k m. k @ m) ''s3cret'' 1700604800000 tok =
        \<lparr> auth_success = False, auth_user = None, auth_error = Some ''Token has expired'' \<rparr>"
    by blast
  have n: "(1700000000123::nat) div 1000 = 1700000000" "(1700000000::nat) + 604800 = 1700604800"
    by simp_all
  from g v e s show ?thesis
    unfolding n by blast
qed

section \<open>Two signups with one email (claim C1)\<close>

lemma findUnique_None_iff: "findUnique db e = None \<longleftrightarrow> \<not> list_ex (\<lambda>u. user_email u = e) db"
  by (induction db) (auto simp: findUnique_def)

lemma findUnique_append_new:
  "findUnique db e = None \<Longrightarrow>
   findUnique (db @ [u]) e = (if user_email u = e then Some u else None)"
  by (induction db) (auto simp: findUnique_def split: if_splits)

text \<open>
  C1, what the code does. Two signup requests that both pass validation with the same
  normalized email, against a table that does not hold that email. When both requests
  run their pre-check before either of them creates the user (the schedule
  \<open>[False, True]\<close>), the first is answered 201 and the create of the second is refused
  by the unique constraint; the handler has no catch of its own for it, so the error
  reaches \<^verbatim>\<open>withErrorHandling\<close> and the second request is answered with the internal
  error envelope \<^verbatim>\<open>{success:false, code:"INTERNAL_ERROR", status:500}\<close>, not with the
  conflict envelope. Only when the first request has finished before the second starts
  (the empty schedule) does the pre-check answer 409.
\<close>

theorem signup_race_internal_error:
  assumes b1: "json_body req1 = Some b1"
    and v1: "validateInput signupSchema b1 =
               \<lparr> v_success = True,
                 v_data = Some [(''name'', n1), (''email'', e), (''password'', pw1)],
                 v_errors = None \<rparr>"
    and b2: "json_body req2 = Some b2"
    and v2: "validateInput signupSchema b2 =
               \<lparr> v_success = True,
                 v_data = Some [(''name'', n2), (''email'', e), (''password'', pw2)],
                 v_errors = None \<rparr>"
    and fresh: "findUnique db e = None"
    and secret: "p_jwt_secret p \<noteq> []"
  shows "\<exists>tok.
     run2 p [False, True] (signup_handler p req1) (signup_handler p req2) db =
       ((Inr \<lparr> res_body = ApiSuccess
                  \<lparr> s_token = tok,
                    s_user = \<lparr> au_id = p_new_id p db, au_email = e, au_name = n1 \<rparr> \<rparr>
                  ''User created successfully'' (p_now p),
                res_status = 201 \<rparr>,
         Inr \<lparr> res_body = ApiError ''An error occurred while processing your request''
                  ''INTERNAL_ERROR'' 500
                  (if p_node_env p = Some ''development''
                   then Some (JObj [(''originalError'',
                          JStr ''Unique constraint failed on the fields: (email)'')])
                   else None)
                  (p_now p),
                res_status = 500 \<rparr>),
        db @ [\<lparr> user_id = p_new_id p db, user_email = e,
                 user_password = p_bcrypt_hash p pw1 10, user_name = n1 \<rparr>]) \<and>
     run2 p [] (signup_handler p req1) (signup_handler p req2) db =
       ((Inr \<lparr> res_body = ApiSuccess
                  \<lparr> s_token = tok,
                    s_user = \<lparr> au_id = p_new_id p db, au_email = e, au_name = n1 \<rparr> \<rparr>
                  ''User created successfully'' (p_now p),
                res_status = 201 \<rparr>,
         Inr \<lparr> res_body = ApiError
                  (''User with email '' @ [CHR 0x22] @ e @ [CHR 0x22] @
                   '' already exists. Please try logging in or use a different email.'')
                  ''CONFLICT'' 409 None (p_now p),
                res_status = 409 \<rparr>),
        db @ [\<lparr> user_id = p_new_id p db, user_email = e,
                 user_password = p_bcrypt_hash p pw1 10, user_name = n1 \<rparr>])"
proof -
  let ?u = "\<lparr> user_id = p_new_id p db, user_email = e,
             user_password = p_bcrypt_hash p pw1 10, user_name = n1 \<rparr>"
  define tok where "tok = jwt_header @ ''.'' @
          encode_payload \<lparr> jwt_id = p_new_id p db, jwt_email = e, iat = Some (p_now p div 1000),
                           exp = Some (p_now p div 1000 + 604800) \<rparr> @ ''.'' @
          encode_text (p_hmac p (p_jwt_secret p) (jwt_header @ ''.'' @
            encode_payload \<lparr> jwt_id = p_new_id p db, jwt_email = e, iat = Some (p_now p div 1000),
                             exp = Some (p_now p div 1000 + 604800) \<rparr>))"
  have g: "generateToken (p_hmac p) (p_jwt_secret p) (p_now p) (p_new_id p db) e
             generateToken_default_expiresIn = Inr tok"
    unfolding tok_def using secret by (rule generateToken_7d)
  have c1: "create (p_new_id p) db
              \<lparr> new_name = n1, new_email = e, new_password = p_bcrypt_hash p pw1 10 \<rparr> =
            Inr (?u, db @ [?u])"
    using fresh by (simp add: create_def findUnique_None_iff Let_def)
  have c2: "create (p_new_id p) (db @ [?u])
              \<lparr> new_name = n2, new_email = e, new_password = p_bcrypt_hash p pw2 10 \<rparr> =
            Inl (PrismaClientKnownRequestError ''P2002''
                   ''Unique constraint failed on the fields: (email)'')"
    by (simp add: create_def)
  have f2: "findUnique (db @ [?u]) e = Some ?u"
    using fresh by (simp add: findUnique_append_new)
  have race: "run2 p [False, True] (signup_handler p req1) (signup_handler p req2) db =
       ((Inr \<lparr> res_body = ApiSuccess
                  \<lparr> s_token = tok,
                    s_user = \<lparr> au_id = p_new_id p db, au_email = e, au_name = n1 \<rparr> \<rparr>
                  ''User created successfully'' (p_now p),
                res_status = 201 \<rparr>,
         Inr \<lparr> res_body = ApiError ''An error occurred while processing your request''
                  ''INTERNAL_ERROR'' 500
                  (if p_node_env p = Some ''development''
                   then Some (JObj [(''originalError'',
                          JStr ''Unique constraint failed on the fields: (email)'')])
                   else None)
                  (p_now p),
                res_status = 500 \<rparr>),
        db @ [?u])"
    by (simp add: signup_handler_def withErrorHandling_def signup_POST_def b1 v1 b2 v2 fresh
        AUTH_CONFIG_BCRYPT_ROUNDS_def c1 c2 g successResponse_def truthy_string_def
        SUCCESS_MESSAGES_USER_CREATED_def handleError_def errorResponse_def
        ERROR_MESSAGES_INTERNAL_SERVER_ERROR_def HTTP_STATUS_INTERNAL_SERVER_ERROR_def)
  have seq: "run2 p [] (signup_handler p req1) (signup_handler p req2) db =
       ((Inr \<lparr> res_body = ApiSuccess
                  \<lparr> s_token = tok,
                    s_user = \<lparr> au_id = p_new_id p db, au_email = e, au_name = n1 \<rparr> \<rparr>
                  ''User created successfully'' (p_now p),
                res_status = 201 \<rparr>,
         Inr \<lparr> res_body = ApiError
                  (''User with email '' @ [CHR 0x22] @ e @ [CHR 0x22] @
                   '' already exists. Please try logging in or use a different email.'')
                  ''CONFLICT'' 409 None (p_now p),
                res_status = 409 \<rparr>),
        db @ [?u])"
    by (simp add: signup_handler_def withErrorHandling_def signup_POST_def b1 v1 b2 v2 fresh f2
        AUTH_CONFIG_BCRYPT_ROUNDS_def c1 g successResponse_def truthy_string_def
        SUCCESS_MESSAGES_USER_CREATED_def conflictResponse_def errorResponse_def
        HTTP_STATUS_CONFLICT_def)
  from race seq show ?thesis by blast
qed

theorem signup_race_internal_error_witness:
  "validateInput signupSchema
     (JObj [(''name'', JStr ''Jo''), (''email'', JStr ''jo@test.com''),
            (''password'', JStr ''Passw0rd!'')]) =
     \<lparr> v_success = True,
       v_data = Some [(''name'', ''Jo''), (''email'', ''jo@test.com''), (''password'', ''Passw0rd!'')],
       v_errors = None \<rparr> \<and>
   validateInput signupSchema
     (JObj [(''name'', JStr ''Joe''), (''email'', JStr ''Jo@Test.com''),
            (''password'', JStr ''Passw0rd!'')]) =
     \<lparr> v_success = True,
       v_data = Some [(''name'', ''Joe''), (''email'', ''jo@test.com''), (''password'', ''Passw0rd!'')],
       v_errors = None \<rparr> \<and>
   findUnique [] ''jo@test.com'' = None \<and>
   (\<exists>tok.
      run2 \<lparr> p_node_env = Some ''production'', p_jwt_secret = ''s3cret'', p_now = 1700000000123,
             p_hmac = (\<lambda>k m. k @ m), p_bcrypt_hash = (\<lambda>s n. ''#'' @ s),
             p_bcrypt_compare = (\<lambda>s h. h = ''#'' @ s), p_new_id = (\<lambda>db. ''u0'') \<rparr>
        [False, True]
        (signup_handler
           \<lparr> p_node_env = Some ''production'', p_jwt_secret = ''s3cret'', p_now = 1700000000123,
             p_hmac = (\<lambda>k m. k @ m), p_bcrypt_hash = (\<lambda>s n. ''#'' @ s),
             p_bcrypt_compare = (\<lambda>s h. h = ''#'' @ s), p_new_id = (\<lambda>db. ''u0'') \<rparr>
           \<lparr> pathname = ''/api/auth/signup'', cookies = Map.empty, authorization = None,
             json_body = Some (JObj [(''name'', JStr ''Jo''), (''email'', JStr ''jo@test.com''),
                                     (''password'', JStr ''Passw0rd!'')]) \<rparr>)
        (signup_handler
           \<lparr> p_node_env = Some ''production'', p_jwt_secret = ''s3cret'', p_now = 1700000000123,
             p_hmac = (\<lambda>k m. k @ m), p_bcrypt_hash = (\<lambda>s n. ''#'' @ s),
             p_bcrypt_compare = (\<lambda>s h. h = ''#'' @ s), p_new_id = (\<lambda>db. ''u0'') \<rparr>
           \<lparr> pathname = ''/api/auth/signup'', cookies = Map.empty, authorization = None,
             json_body = Some (JObj [(''name'', JStr ''Joe''), (''email'', JStr ''Jo@Test.com''),
                                     (''password'', JStr ''Passw0rd!'')]) \<rparr>)
        [] =
      ((Inr \<lparr> res_body = ApiSuccess
                 \<lparr> s_token = tok,
                   s_user = \<lparr> au_id = ''u0'', au_email = ''jo@test.com'', au_name = ''Jo'' \<rparr> \<rparr>
                 ''User created successfully'' 1700000000123,
               res_status = 201 \<rparr>,
        Inr \<lparr> res_body = ApiError ''An error occurred while processing your request''
                 ''INTERNAL_ERROR'' 500 None 1700000000123,
               res_status = 500 \<rparr>),
       [\<lparr> user_id = ''u0'', user_email = ''jo@test.com'', user_password = ''#Passw0rd!'',
          user_name = ''Jo'' \<rparr>]))"
proof -
  let ?p = "\<lparr> p_node_env = Some ''production'', p_jwt_secret = ''s3cret'', p_now = 1700000000123,
             p_hmac = (\<lambda>k m. k @ m), p_bcrypt_hash = (\<lambda>s n. ''#'' @ s),
             p_bcrypt_compare = (\<lambda>s h. h = ''#'' @ s), p_new_id = (\<lambda>db. ''u0'') \<rparr>"
  let ?b1 = "JObj [(''name'', JStr ''Jo''), (''email'', JStr ''jo@test.com''),
                   (''password'', JStr ''Passw0rd!'')]"
  let ?b2 = "JObj [(''name'', JStr ''Joe''), (''email'', JStr ''Jo@Test.com''),
                   (''password'', JStr ''Passw0rd!'')]"
  let ?r1 = "\<lparr> pathname = ''/api/auth/signup'', cookies = Map.empty, authorization = None,
             json_body = Some ?b1 \<rparr>"
  let ?r2 = "\<lparr> pathname = ''/api/auth/signup'', cookies = Map.empty, authorization = None,
             json_body = Some ?b2 \<rparr>"
  have b1: "json_body ?r1 = Some ?b1" by simp
  have b2: "json_body ?r2 = Some ?b2" by simp
  have v1: "validateInput signupSchema ?b1 =
     \<lparr> v_success = True,
       v_data = Some [(''name'', ''Jo''), (''email'', ''jo@test.com''), (''password'', ''Passw0rd!'')],
       v_errors = None \<rparr>"
    by code_simp
  have v2: "validateInput signupSchema ?b2 =
     \<lparr> v_success = True,
       v_data = Some [(''name'', ''Joe''), (''email'', ''jo@test.com''), (''password'', ''Passw0rd!'')],
       v_errors = None \<rparr>"
    by code_simp
  have f: "findUnique [] ''jo@test.com'' = None" by (simp add: findUnique_def)
  have s: "p_jwt_secret ?p \<noteq> []" by simp
  from signup_race_internal_error [OF b1 v1 b2 v2 f s]
  obtain tok where
    "run2 ?p [False, True] (signup_handler ?p ?r1) (signup_handler ?p ?r2) [] =
      ((Inr \<lparr> res_body = ApiSuccess
                 \<lparr> s_token = tok,
                   s_user = \<lparr> au_id = ''u0'', au_email = ''jo@test.com'', au_name = ''Jo'' \<rparr> \<rparr>
                 ''User created successfully'' 1700000000123,
               res_status = 201 \<rparr>,
        Inr \<lparr> res_body = ApiError ''An error occurred while processing your request''
                 ''INTERNAL_ERROR'' 500 None 1700000000123,
               res_status = 500 \<rparr>),
       [\<lparr> user_id = ''u0'', user_email = ''jo@test.com'', user_password = ''#Passw0rd!'',
          user_name = ''Jo'' \<rparr>])"
    by auto
  with v1 v2 f show ?thesis by blast
qed

section \<open>The email of a signup payload (claim C5)\<close>

lemma last_dropWhile_nonempty: "dropWhile P xs \<noteq> [] \<Longrightarrow> last (dropWhile P xs) = last xs"
  by (induction xs) (auto split: if_splits)

lemma trim_idem: "trim (trim s) = trim s"
proof -
  define a where "a = dropWhile is_space s"
  define b where "b = dropWhile is_space (rev a)"
  have t: "trim s = rev b" by (simp add: trim_def a_def b_def)
  have 1: "dropWhile is_space (rev b) = rev b"
  proof (cases "b = []")
    case True
    then show ?thesis by simp
  next
    case False
    then have a: "a \<noteq> []" by (auto simp: b_def)
    have "last b = last (rev a)" using False unfolding b_def by (rule last_dropWhile_nonempty)
    also have "\<dots> = hd a" using a by (simp add: last_rev)
    finally have "hd (rev b) = hd a" using False by (simp add: hd_rev)
    moreover have "\<not> is_space (hd a)" using a unfolding a_def by (rule hd_dropWhile)
    ultimately show ?thesis using False by (simp add: dropWhile_eq_self_iff)
  qed
  have 2: "dropWhile is_space b = b" unfolding b_def by (rule dropWhile_idem)
  show ?thesis unfolding t by (simp add: trim_def 1 2)
qed

lemma lower_not_upper:
  "lower_unit c \<notin> set upper_units"
proof (cases "index_of c upper_units")
  case None
  have "\<And>xs. index_of c xs = None \<Longrightarrow> c \<notin> set xs"
  proof -
    fix xs show "index_of c xs = None \<Longrightarrow> c \<notin> set xs"
      by (induction xs) (auto split: if_splits)
  qed
  with None show ?thesis by (simp add: lower_unit_def)
next
  case (Some i)
  have "\<And>xs. index_of c xs = Some i \<Longrightarrow> i < length xs"
  proof -
    fix xs show "index_of c xs = Some i \<Longrightarrow> i < length xs"
      by (induction xs arbitrary: i) (auto split: if_splits)
  qed
  with Some have "i < 56" by (fastforce simp: upper_units_def upper_letters_def)
  moreover have "\<forall>i \<in> set [0..<56]. lower_units ! i \<notin> set upper_units"
    by code_simp
  ultimately show ?thesis using Some by (simp add: lower_unit_def)
qed

lemma toLowerCase_no_upper: "c \<in> set (toLowerCase s) \<Longrightarrow> c \<notin> set upper_units"
  using lower_not_upper by (auto simp: toLowerCase_def)

lemma index_of_None: "c \<notin> set xs \<Longrightarrow> index_of c xs = None"
  by (induction xs) auto

lemma toLowerCase_fixed:
  assumes "\<And>c. c \<in> set s \<Longrightarrow> c \<notin> set upper_units"
  shows "toLowerCase s = s"
  unfolding toLowerCase_def using assms by (intro map_idI) (simp add: index_of_None lower_unit_def)

lemma parse_string_Inl: "parse_string checks v \<noteq> Inl []"
  by (auto simp: parse_string_def split: option.splits json.splits prod.splits)

lemma set_trim: "set (trim s) \<subseteq> set s"
  unfolding trim_def
  by (metis set_dropWhileD set_rev subsetI)

lemma toLowerCase_trim_toLowerCase: "toLowerCase (trim (toLowerCase e)) = trim (toLowerCase e)"
  by (rule toLowerCase_fixed) (meson set_trim subsetD toLowerCase_no_upper)

text \<open>
  What holds of every signup payload that the validation accepts: the payload is an
  object whose email is a string of the shape of an address, and the email of the typed
  data is that string lowercased and then trimmed, a string that lowercasing and trimming
  leave as it is.
\<close>

theorem validateInput_signup_email_normalized:
  assumes "validateInput signupSchema b = \<lparr> v_success = True, v_data = Some d, v_errors = None \<rparr>"
  shows "\<exists>kvs e. b = JObj kvs \<and> map_of kvs ''email'' = Some (JStr e) \<and> email_regex e \<and>
           map_of d ''email'' = Some (trim (toLowerCase e)) \<and>
           toLowerCase (trim (toLowerCase e)) = trim (toLowerCase e) \<and>
           trim (trim (toLowerCase e)) = trim (toLowerCase e)"
proof -
  from assms obtain kvs where b: "b = JObj kvs"
    by (cases b) (auto simp: validateInput_def safeParse_def split: sum.splits)
  from assms have sp: "safeParse signupSchema (JObj kvs) = Inr d"
    unfolding b by (auto simp: validateInput_def split: sum.splits)
  obtain r where r: "parse_string emailSchema (map_of kvs ''email'') = r" by simp
  from sp have "\<exists>v. r = Inr v \<and> map_of d ''email'' = Some v"
    unfolding r [symmetric]
    using parse_string_Inl [of nameSchema "map_of kvs ''name''"]
      parse_string_Inl [of emailSchema "map_of kvs ''email''"]
      parse_string_Inl [of passwordSchema "map_of kvs ''password''"]
    by (auto simp: safeParse_def signupSchema_def Let_def split: sum.splits if_splits)
  then obtain v where v: "parse_string emailSchema (map_of kvs ''email'') = Inr v"
    "map_of d ''email'' = Some v" using r by auto
  from v(1) obtain e where e: "map_of kvs ''email'' = Some (JStr e)"
    by (auto simp: parse_string_def split: option.splits json.splits)
  from v(1) have "email_regex e \<and> v = trim (toLowerCase e)"
    unfolding e by (auto simp: parse_string_def emailSchema_def split: if_splits)
  with b e v(2) show ?thesis
    by (auto simp: toLowerCase_trim_toLowerCase trim_idem)
qed

theorem validateInput_signup_email_normalized_witness:
  "validateInput signupSchema
     (JObj [(''name'', JStr ''Jo''), (''email'', JStr ''Jo@Test.com''),
            (''password'', JStr ''Passw0rd!'')]) =
     \<lparr> v_success = True,
       v_data = Some [(''name'', ''Jo''), (''email'', ''jo@test.com''), (''password'', ''Passw0rd!'')],
       v_errors = None \<rparr> \<and>
   trim (toLowerCase ''Jo@Test.com'') = ''jo@test.com'' \<and>
   toLowerCase ''jo@test.com'' = ''jo@test.com'' \<and> trim ''jo@test.com'' = ''jo@test.com''"
proof -
  let ?kvs = "[(''name'', JStr ''Jo''), (''email'', JStr ''Jo@Test.com''),
               (''password'', JStr ''Passw0rd!'')]"
  have v: "validateInput signupSchema (JObj ?kvs) =
     \<lparr> v_success = True,
       v_data = Some [(''name'', ''Jo''), (''email'', ''jo@test.com''), (''password'', ''Passw0rd!'')],
       v_errors = None \<rparr>"
    by code_simp
  from validateInput_signup_email_normalized [OF v]
  obtain kvs e where k: "JObj ?kvs = JObj kvs" "map_of kvs ''email'' = Some (JStr e)"
    and d: "map_of [(''name'', ''Jo''), (''email'', ''jo@test.com''), (''password'', ''Passw0rd!'')]
              ''email'' = Some (trim (toLowerCase e))"
    and n: "toLowerCase (trim (toLowerCase e)) = trim (toLowerCase e)"
      "trim (trim (toLowerCase e)) = trim (toLowerCase e)"
    by blast
  from k have e: "e = ''Jo@Test.com''" by auto
  from d have t: "trim (toLowerCase ''Jo@Test.com'') = ''jo@test.com''"
    unfolding e by simp
  from n have "toLowerCase ''jo@test.com'' = ''jo@test.com'' \<and> trim ''jo@test.com'' = ''jo@test.com''"
    unfolding e t by simp
  with v t show ?thesis by blast
qed


text \<open>
  C5, what the code does on the input of the claim. The email schema runs its format
  check first and trims afterwards, and the pattern of the check admits no white space:
  the signup payload with the email "Jo@Test.com " (one space at the end) is rejected
  with the field error "Invalid email format" and no typed data is returned. The same
  payload without the space is accepted and its email comes back as "jo@test.com".
\<close>

theorem validateInput_email_trailing_space:
  "validateInput signupSchema
     (JObj [(''name'', JStr ''Jo''), (''email'', JStr ''Jo@Test.com ''),
            (''password'', JStr ''Passw0rd!'')]) =
   \<lparr> v_success = False, v_data = None,
     v_errors = Some [(''email'', ''Invalid email format'')] \<rparr> \<and>
   validateInput signupSchema
     (JObj [(''name'', JStr ''Jo''), (''email'', JStr ''Jo@Test.com''),
            (''password'', JStr ''Passw0rd!'')]) =
   \<lparr> v_success = True,
     v_data = Some [(''name'', ''Jo''), (''email'', ''jo@test.com''), (''password'', ''Passw0rd!'')],
     v_errors = None \<rparr>"
  by code_simp

end
